theory Spec2Isabelle
  imports Main "HOL-Library.Sublist" "HOL-Library.AList"
begin

section \<open>Strings, paths and Python's string helpers\<close>

text \<open>
  The publisher of \<^verbatim>\<open>platformio_api/libbuild.py\<close> is modelled as it is written: a
  sequence of file-system, git and logging calls, each of which may raise. Values the
  code handles as Python strings are \<^typ>\<open>string\<close>; an exception is a value of
  \<open>error\<close>.
\<close>

datatype error =
    GitCommandError "string option"
  | RemoteBranchNotFound string
  | IndexError
  | KeyError string
  | ValueError
  | IOError
  | OSError
  | ShutilError
  | ConnectionError

text \<open>\<^verbatim>\<open>str(n)\<close> for a library id, a non-negative integer.\<close>

fun str_nat :: "nat \<Rightarrow> string" where
  "str_nat n =
     (if n < 10 then [''0123456789'' ! n]
      else str_nat (n div 10) @ [''0123456789'' ! (n mod 10)])"

declare str_nat.simps [simp del]

text \<open>\<^verbatim>\<open>sep.join(xs)\<close>.\<close>

fun py_join :: "string \<Rightarrow> string list \<Rightarrow> string" where
  "py_join sep [] = []"
| "py_join sep [x] = x"
| "py_join sep (x # y # ys) = x @ sep @ py_join sep (y # ys)"

text \<open>
  \<^verbatim>\<open>s.split("\n")\<close>: the pieces between the separators, always at least one piece.
  \<open>py_split c cur s\<close> carries the piece being read.
\<close>

fun py_split :: "char \<Rightarrow> string \<Rightarrow> string \<Rightarrow> string list" where
  "py_split c cur [] = [cur]"
| "py_split c cur (x # xs) =
     (if x = c then cur # py_split c [] xs else py_split c (cur @ [x]) xs)"

text \<open>\<^verbatim>\<open>xs[-2]\<close>: raises \<^verbatim>\<open>IndexError\<close> on a list shorter than two.\<close>

definition penultimate :: "'a list \<Rightarrow> error + 'a" where
  "penultimate xs =
     (if length xs < 2 then Inl IndexError else Inr (xs ! (length xs - 2)))"

text \<open>
  \<^verbatim>\<open>template.format(**kwargs)\<close> for templates with named fields only: text outside
  braces is copied, \<^verbatim>\<open>{name}\<close> is replaced by the keyword argument of that name
  (\<^verbatim>\<open>KeyError\<close> when there is none), an unbalanced brace is a \<^verbatim>\<open>ValueError\<close>.
  The second argument is the field name read so far, when inside braces.
\<close>

fun format_from :: "(string \<times> string) list \<Rightarrow> string option \<Rightarrow> string \<Rightarrow> error + string" where
  "format_from kw None [] = Inr []"
| "format_from kw (Some f) [] = Inl ValueError"
| "format_from kw None (c # cs) =
     (if c = CHR ''{'' then format_from kw (Some []) cs
      else if c = CHR ''}'' then Inl ValueError
      else (case format_from kw None cs of Inl e \<Rightarrow> Inl e | Inr r \<Rightarrow> Inr (c # r)))"
| "format_from kw (Some f) (c # cs) =
     (if c = CHR ''}'' then
        (case map_of kw f of
           None \<Rightarrow> Inl (KeyError f)
         | Some v \<Rightarrow> (case format_from kw None cs of Inl e \<Rightarrow> Inl e | Inr r \<Rightarrow> Inr (v @ r)))
      else format_from kw (Some (f @ [c])) cs)"

definition py_format :: "string \<Rightarrow> (string \<times> string) list \<Rightarrow> error + string" where
  "py_format template kw = format_from kw None template"

text \<open>
  A path is its list of components, absolute or relative to the working directory.
  \<^verbatim>\<open>os.path.join\<close> appends components; \<open>path_str\<close> is the string the code
  interpolates into text.
\<close>

datatype path = Abs "string list" | Rel "string list"

fun join :: "path \<Rightarrow> path \<Rightarrow> path" where
  "join p (Abs cs) = Abs cs"
| "join (Abs ds) (Rel cs) = Abs (ds @ cs)"
| "join (Rel ds) (Rel cs) = Rel (ds @ cs)"

fun path_str :: "path \<Rightarrow> string" where
  "path_str (Abs cs) = CHR ''/'' # py_join ''/'' cs"
| "path_str (Rel cs) = py_join ''/'' cs"

section \<open>Constants of the module\<close>

definition VERSION_FILENAME :: path where
  "VERSION_FILENAME = Rel [''_version.json'']"

definition TRAVIS_FILENAME :: path where
  "TRAVIS_FILENAME = Rel [''.travis.yml'']"

definition COMMIT_MESSAGE :: string where
  "COMMIT_MESSAGE = ''Update library to version {library_version}''"

definition TRAVIS_CONFIG_TEMPLATE :: string where
  "TRAVIS_CONFIG_TEMPLATE =
    ''language: python\<newline>'' @
    ''python:\<newline>'' @
    ''    - \"2.7\"\<newline>'' @
    ''\<newline>'' @
    ''sudo: false\<newline>'' @
    ''\<newline>'' @
    ''# Cache PlatformIO packages using Travis CI container-based infrastructure\<newline>'' @
    ''cache:\<newline>'' @
    ''    directories:\<newline>'' @
    ''        - \"~/.platformio\"\<newline>'' @
    ''\<newline>'' @
    ''env:\<newline>'' @
    ''{envs}\<newline>'' @
    ''\<newline>'' @
    ''install:\<newline>'' @
    ''    - pip install -U platformio\<newline>'' @
    ''\<newline>'' @
    ''script:\<newline>'' @
    ''    - platformio --force lib install --version={library_version} {library_id}\<newline>'' @
    ''    - platformio --force ci {boards}\<newline>''"

definition BOARDS :: "(string \<times> string list) list" where
  "BOARDS =
    [(''atmelavr'', [''uno'', ''leonardo'', ''megaatmega2560'']),
     (''teensy'', [''teensy20'', ''teensy31''])]"

section \<open>Board resolution\<close>

text \<open>
  \<^verbatim>\<open>get_boards()\<close> of the \<^verbatim>\<open>platformio\<close> package is not part of this repository:
  its result is a parameter, the items of the dictionary in iteration order, each board
  with the \<^verbatim>\<open>"platform"\<close> entry of its info (\<open>None\<close> when the info has none).
\<close>

type_synonym registry = "(string \<times> string option) list"

fun all_boards_loop :: "string list \<Rightarrow> registry \<Rightarrow> string list \<Rightarrow> string list" where
  "all_boards_loop platforms [] board_names = board_names"
| "all_boards_loop platforms ((board, info) # items) board_names =
     (if (case info of None \<Rightarrow> False | Some p \<Rightarrow> p \<in> set platforms)
      then all_boards_loop platforms items (board_names @ [board])
      else all_boards_loop platforms items board_names)"

definition get_all_boards_by_platforms :: "registry \<Rightarrow> string list \<Rightarrow> string list" where
  "get_all_boards_by_platforms get_boards platforms = all_boards_loop platforms get_boards []"

fun boards_loop :: "string list \<Rightarrow> string list \<Rightarrow> string list" where
  "boards_loop [] board_names = board_names"
| "boards_loop (p # platforms) board_names =
     boards_loop platforms
       (board_names @ (case map_of BOARDS p of None \<Rightarrow> [] | Some bs \<Rightarrow> bs))"

definition get_boards_by_platforms :: "string list \<Rightarrow> string list" where
  "get_boards_by_platforms platforms = boards_loop platforms []"

section \<open>The version document and the CI configuration\<close>

text \<open>
  The version document is a dictionary: \<open>vname\<close> is the rendering of its \<^verbatim>\<open>"name"\<close>
  entry (\<open>None\<close> when the key is absent, so that \<^verbatim>\<open>version["name"]\<close> raises
  \<^verbatim>\<open>KeyError\<close>), \<open>vmeta\<close> is the rest of the document. Equality of records is the
  \<^verbatim>\<open>==\<close> of the two dictionaries.
\<close>

record 'm version =
  vname :: "string option"
  vmeta :: 'm

definition version_name :: "'m version \<Rightarrow> error + string" where
  "version_name version =
     (case vname version of None \<Rightarrow> Inl (KeyError ''name'') | Some n \<Rightarrow> Inr n)"

text \<open>
  Lines 138 to 146 without the file: the board flags and the environment lines are
  joined first, then the template is formatted (the version name is looked up while the
  arguments of \<^verbatim>\<open>format\<close> are evaluated).
\<close>

definition travis_boards :: "string list \<Rightarrow> string" where
  "travis_boards platforms =
     py_join '' '' (map (\<lambda>board_type. ''--board='' @ board_type)
                        (get_boards_by_platforms platforms))"

definition travis_envs :: "path list \<Rightarrow> string" where
  "travis_envs example_files =
     py_join ''\<newline>'' (map (\<lambda>p. ''    - PLATFORMIO_CI_SRC='' @ path_str p) example_files)"

definition travis_config :: "nat \<Rightarrow> 'm version \<Rightarrow> string list \<Rightarrow> path list \<Rightarrow> error + string" where
  "travis_config lib_id version platforms example_files =
     (let boards = travis_boards platforms;
          envs = travis_envs example_files
      in case version_name version of
           Inl e \<Rightarrow> Inl e
         | Inr library_version \<Rightarrow>
             py_format TRAVIS_CONFIG_TEMPLATE
               [(''envs'', envs), (''boards'', boards),
                (''library_version'', library_version), (''library_id'', str_nat lib_id)])"

section \<open>The world: file system, remote repository, trace\<close>

text \<open>
  A file holds text, or the JSON serialisation of a version document (what
  \<^verbatim>\<open>json.dump\<close> writes and \<^verbatim>\<open>json.load\<close> reads back; JSON that is not a
  dictionary is not modelled). The file system is a
  table from absolute paths to nodes; a lookup takes the first entry of a path. A git
  tree is a table from paths relative to the repository root to file contents.
\<close>

datatype 'm content = Text string | Json "'m version"

datatype 'm node = Dir | File "'m content"

type_synonym 'm filesystem = "(string list \<times> 'm node) list"

type_synonym 'm tree = "(string list \<times> 'm content) list"

text \<open>
  What the call does to the outside, in order. \<open>Pushed\<close> is a push the remote took,
  \<open>PushRejected\<close> one that it refused.
\<close>

datatype event =
    LogDebug string
  | LogInfo string
  | LogException error
  | CloneAttempt string "string list" string bool nat
  | CheckedOutOrphan string
  | WroteFile "string list"
  | RemovedTree "string list"
  | MadeDir "string list"
  | CopiedFile "string list" "string list"
  | IndexAdded "path list"
  | Committed string
  | Pushed string
  | PushRejected string

record 'm world =
  cwd :: "string list"
  fs :: "'m filesystem"
  remote :: "(string \<times> 'm tree) list"
  trace :: "event list"

text \<open>
  What the code takes from outside this file: the configured repository URI, the
  directory and the random suffix \<^verbatim>\<open>mkdtemp\<close> picks,
  \<^verbatim>\<open>platformio_api.util.get_libexample_dir\<close>, the failures of the network
  operations that do not depend on the state of the remote repository, and whether the
  remote refuses a push.
\<close>

record env =
  LIBBUILD_REPO_URI :: string
  tempdir :: "string list"
  tmp_suffix :: string
  get_libexample_dir :: "nat \<Rightarrow> path"
  clone_fault :: "string \<Rightarrow> error option"
  push_fault :: "error option"
  push_rejected :: bool

type_synonym ('m, 'a) io = "'m world \<Rightarrow> (error + 'a) \<times> 'm world"

definition return :: "'a \<Rightarrow> ('m, 'a) io" where
  "return x = (\<lambda>w. (Inr x, w))"

definition raise :: "error \<Rightarrow> ('m, 'a) io" where
  "raise e = (\<lambda>w. (Inl e, w))"

definition bind_io :: "('m, 'a) io \<Rightarrow> ('a \<Rightarrow> ('m, 'b) io) \<Rightarrow> ('m, 'b) io" where
  "bind_io m f = (\<lambda>w. case m w of (Inl e, w') \<Rightarrow> (Inl e, w') | (Inr x, w') \<Rightarrow> f x w')"

text \<open>\<^verbatim>\<open>try: m except RemoteBranchNotFound: h\<close>\<close>

definition except_RemoteBranchNotFound :: "('m, 'a) io \<Rightarrow> ('m, 'a) io \<Rightarrow> ('m, 'a) io" where
  "except_RemoteBranchNotFound m h =
     (\<lambda>w. case m w of
            (Inl (RemoteBranchNotFound b), w') \<Rightarrow> h w'
          | (r, w') \<Rightarrow> (r, w'))"

text \<open>\<^verbatim>\<open>try: m except Exception as exc: h(exc)\<close>\<close>

definition except_Exception :: "('m, unit) io \<Rightarrow> (error \<Rightarrow> ('m, unit) io) \<Rightarrow> ('m, unit) io" where
  "except_Exception m h =
     (\<lambda>w. case m w of (Inl exc, w') \<Rightarrow> h exc w' | (Inr x, w') \<Rightarrow> (Inr x, w'))"

text \<open>
  \<^verbatim>\<open>try: m finally: fin\<close>: the cleanup runs whatever \<open>m\<close> did; an exception of the
  cleanup replaces the outcome of \<open>m\<close>.
\<close>

definition try_finally :: "('m, 'a) io \<Rightarrow> ('m, unit) io \<Rightarrow> ('m, 'a) io" where
  "try_finally m fin =
     (\<lambda>w. case m w of
            (r, w') \<Rightarrow> (case fin w' of (Inl e, w'') \<Rightarrow> (Inl e, w'') | (Inr u, w'') \<Rightarrow> (r, w'')))"

definition emit :: "event \<Rightarrow> ('m, unit) io" where
  "emit ev = (\<lambda>w. (Inr (), w\<lparr>trace := trace w @ [ev]\<rparr>))"

definition logger_debug :: "string \<Rightarrow> ('m, unit) io" where
  "logger_debug msg = emit (LogDebug msg)"

definition logger_info :: "string \<Rightarrow> ('m, unit) io" where
  "logger_info msg = emit (LogInfo msg)"

definition logger_exception :: "error \<Rightarrow> ('m, unit) io" where
  "logger_exception exc = emit (LogException exc)"

subsection \<open>\<^verbatim>\<open>os\<close>, \<^verbatim>\<open>os.path\<close>, \<^verbatim>\<open>shutil\<close>, \<^verbatim>\<open>tempfile\<close>, \<^verbatim>\<open>json\<close>\<close>

definition resolve :: "'m world \<Rightarrow> path \<Rightarrow> string list" where
  "resolve w p = (case p of Abs cs \<Rightarrow> cs | Rel cs \<Rightarrow> cwd w @ cs)"

definition lookup :: "'m filesystem \<Rightarrow> string list \<Rightarrow> 'm node option" where
  "lookup f p = map_of f p"

definition is_dir :: "'m filesystem \<Rightarrow> string list \<Rightarrow> bool" where
  "is_dir f p = (lookup f p = Some Dir)"

definition parent_is_dir :: "'m filesystem \<Rightarrow> string list \<Rightarrow> bool" where
  "parent_is_dir f p = (p \<noteq> [] \<and> is_dir f (butlast p))"

definition remove_tree :: "string list \<Rightarrow> 'm filesystem \<Rightarrow> 'm filesystem" where
  "remove_tree p f = filter (\<lambda>(q, n). \<not> prefix p q) f"

definition children :: "'m filesystem \<Rightarrow> string list \<Rightarrow> string list" where
  "children f p = remdups (map (\<lambda>(q, n). last q) (filter (\<lambda>(q, n). q \<noteq> [] \<and> butlast q = p) f))"

text \<open>Nothing is at or below \<open>p\<close>: the name is free.\<close>

definition fresh :: "'m filesystem \<Rightarrow> string list \<Rightarrow> bool" where
  "fresh f p = list_all (\<lambda>(q, n). \<not> prefix p q) f"

definition getcwd :: "('m, path) io" where
  "getcwd = (\<lambda>w. if is_dir (fs w) (cwd w) then (Inr (Abs (cwd w)), w) else (Inl OSError, w))"

definition chdir :: "path \<Rightarrow> ('m, unit) io" where
  "chdir p =
     (\<lambda>w. if is_dir (fs w) (resolve w p) then (Inr (), w\<lparr>cwd := resolve w p\<rparr>)
          else (Inl OSError, w))"

definition mkdtemp :: "env \<Rightarrow> string \<Rightarrow> ('m, path) io" where
  "mkdtemp e pfx =
     (\<lambda>w. let d = tempdir e @ [pfx @ tmp_suffix e]
          in if is_dir (fs w) (tempdir e) \<and> fresh (fs w) d
             then (Inr (Abs d), w\<lparr>fs := fs w @ [(d, Dir)], trace := trace w @ [MadeDir d]\<rparr>)
             else (Inl OSError, w))"

definition exists :: "path \<Rightarrow> ('m, bool) io" where
  "exists p = (\<lambda>w. (Inr (lookup (fs w) (resolve w p) \<noteq> None), w))"

definition read_file :: "path \<Rightarrow> ('m, 'm content) io" where
  "read_file p =
     (\<lambda>w. case lookup (fs w) (resolve w p) of
            Some (File c) \<Rightarrow> (Inr c, w)
          | _ \<Rightarrow> (Inl IOError, w))"

definition load :: "'m content \<Rightarrow> ('m, 'm version) io" where
  "load c = (case c of Json v \<Rightarrow> return v | Text s \<Rightarrow> raise ValueError)"

text \<open>\<^verbatim>\<open>open(p, "w")\<close> followed by writing \<open>c\<close>: the file is created or replaced.\<close>

definition write_file :: "path \<Rightarrow> 'm content \<Rightarrow> ('m, unit) io" where
  "write_file p c =
     (\<lambda>w. let q = resolve w p
          in if parent_is_dir (fs w) q \<and> \<not> is_dir (fs w) q
             then (Inr (), w\<lparr>fs := AList.update q (File c) (fs w),
                              trace := trace w @ [WroteFile q]\<rparr>)
             else (Inl IOError, w))"

definition rmtree :: "path \<Rightarrow> ('m, unit) io" where
  "rmtree p =
     (\<lambda>w. let q = resolve w p
          in if is_dir (fs w) q
             then (Inr (), w\<lparr>fs := remove_tree q (fs w), trace := trace w @ [RemovedTree q]\<rparr>)
             else (Inl OSError, w))"

definition mkdir :: "path \<Rightarrow> ('m, unit) io" where
  "mkdir p =
     (\<lambda>w. let q = resolve w p
          in if parent_is_dir (fs w) q \<and> fresh (fs w) q
             then (Inr (), w\<lparr>fs := fs w @ [(q, Dir)], trace := trace w @ [MadeDir q]\<rparr>)
             else (Inl OSError, w))"

definition listdir :: "path \<Rightarrow> ('m, string list) io" where
  "listdir p =
     (\<lambda>w. if is_dir (fs w) (resolve w p) then (Inr (children (fs w) (resolve w p)), w)
          else (Inl OSError, w))"

text \<open>\<^verbatim>\<open>shutil.copyfile\<close>: refuses to copy a file onto itself, then reads and writes.\<close>

definition copyfile :: "path \<Rightarrow> path \<Rightarrow> ('m, unit) io" where
  "copyfile src dst =
     (\<lambda>w. let s = resolve w src; d = resolve w dst
          in if s = d then (Inl ShutilError, w)
             else (case lookup (fs w) s of
                     Some (File c) \<Rightarrow>
                       if parent_is_dir (fs w) d \<and> \<not> is_dir (fs w) d
                       then (Inr (), w\<lparr>fs := AList.update d (File c) (fs w),
                                        trace := trace w @ [CopiedFile s d]\<rparr>)
                       else (Inl IOError, w)
                   | _ \<Rightarrow> (Inl IOError, w)))"

definition lift :: "error + 'a \<Rightarrow> ('m, 'a) io" where
  "lift r = (case r of Inl e \<Rightarrow> raise e | Inr x \<Rightarrow> return x)"

subsection \<open>GitPython\<close>

text \<open>
  A \<^verbatim>\<open>Repo\<close> object: where its working tree is, the index, the tree of the last
  commit of the checked-out branch (none on an unborn branch), and the name of that
  branch.
\<close>

record 'm repo =
  working_tree_dir :: "string list"
  index :: "'m tree"
  head_commit :: "'m tree option"
  active_branch :: string

text \<open>What git writes to standard error when the branch to clone is not on the remote.\<close>

definition branch_not_found_stderr :: "string list \<Rightarrow> string \<Rightarrow> string" where
  "branch_not_found_stderr to branch =
     ''Cloning into '' @ [CHR 0x27] @ path_str (Abs to) @ [CHR 0x27] @ ''...\<newline>'' @
     ''warning: Could not find remote branch '' @ branch @ '' to clone.\<newline>'' @
     ''fatal: Remote branch '' @ branch @ '' not found in upstream origin\<newline>''"

definition tree_dirs :: "'m tree \<Rightarrow> string list list" where
  "tree_dirs t = concat (map (\<lambda>(p, c). map (\<lambda>k. take k p) [1..<length p]) t)"

text \<open>
  Checking a tree out into \<open>to\<close>: the directory holds \<^verbatim>\<open>.git\<close>, the files of the
  tree and the directories above them, and nothing else.
\<close>

definition checkout_tree :: "string list \<Rightarrow> 'm tree \<Rightarrow> 'm filesystem \<Rightarrow> 'm filesystem" where
  "checkout_tree to t f =
     [(to, Dir), (to @ [''.git''], Dir)] @
     map (\<lambda>(p, c). (to @ p, File c)) t @
     map (\<lambda>d. (to @ d, Dir)) (tree_dirs t) @
     remove_tree to f"

text \<open>
  \<^verbatim>\<open>Repo.clone_from(url, to, branch=..., single-branch=..., depth=...)\<close>. The clone
  fails with the fault of the environment if there is one, and with git's
  branch-not-found error when the remote has no such branch; a failed clone leaves the
  destination as it was.
\<close>

definition clone_from :: "env \<Rightarrow> string \<Rightarrow> path \<Rightarrow> string \<Rightarrow> bool \<Rightarrow> nat \<Rightarrow> ('m, 'm repo) io" where
  "clone_from e url to branch single_branch depth =
     (\<lambda>w0. let d = resolve w0 to;
               w = w0\<lparr>trace := trace w0 @ [CloneAttempt url d branch single_branch depth]\<rparr>
           in case clone_fault e branch of
                Some err \<Rightarrow> (Inl err, w)
              | None \<Rightarrow>
                  (case map_of (remote w) branch of
                     None \<Rightarrow> (Inl (GitCommandError (Some (branch_not_found_stderr d branch))), w)
                   | Some t \<Rightarrow>
                       (Inr \<lparr>working_tree_dir = d, index = t, head_commit = Some t,
                             active_branch = branch\<rparr>,
                        w\<lparr>fs := checkout_tree d t (fs w)\<rparr>)))"

text \<open>\<^verbatim>\<open>repo.git.checkout(branch, orphan=True)\<close>: an unborn branch; index and files stay.\<close>

definition git_checkout_orphan :: "'m repo \<Rightarrow> string \<Rightarrow> ('m, 'm repo) io" where
  "git_checkout_orphan repo branch =
     (if branch = active_branch repo then raise (GitCommandError None)
      else bind_io (emit (CheckedOutOrphan branch))
             (\<lambda>u. return (repo\<lparr>head_commit := None, active_branch := branch\<rparr>)))"

text \<open>\<^verbatim>\<open>repo.index.add(paths)\<close>: each path is read from the working tree into the index.\<close>

definition repo_relative :: "'m repo \<Rightarrow> path \<Rightarrow> error + string list" where
  "repo_relative repo p =
     (case p of
        Rel cs \<Rightarrow> Inr cs
      | Abs q \<Rightarrow> if prefix (working_tree_dir repo) q
                 then Inr (drop (length (working_tree_dir repo)) q) else Inl ValueError)"

fun index_add_loop :: "'m repo \<Rightarrow> path list \<Rightarrow> ('m, 'm repo) io" where
  "index_add_loop repo [] = return repo"
| "index_add_loop repo (p # ps) =
     bind_io (lift (repo_relative repo p)) (\<lambda>cs.
     bind_io (read_file (Abs (working_tree_dir repo @ cs))) (\<lambda>c.
     index_add_loop (repo\<lparr>index := AList.update cs c (index repo)\<rparr>) ps))"

definition index_add :: "'m repo \<Rightarrow> path list \<Rightarrow> ('m, 'm repo) io" where
  "index_add repo paths =
     bind_io (index_add_loop repo paths) (\<lambda>repo'.
     bind_io (emit (IndexAdded paths)) (\<lambda>u. return repo'))"

text \<open>\<^verbatim>\<open>repo.index.commit(message)\<close>: the commit's tree is the index.\<close>

definition index_commit :: "'m repo \<Rightarrow> string \<Rightarrow> ('m, 'm repo) io" where
  "index_commit repo message =
     bind_io (emit (Committed message))
       (\<lambda>u. return (repo\<lparr>head_commit := Some (index repo)\<rparr>))"

text \<open>
  \<^verbatim>\<open>repo.remote("origin").push(branch, set_upstream=True)\<close>. A push that cannot
  be made raises. One that the remote refuses returns like one that it takes (the
  refusal is in the returned \<^verbatim>\<open>PushInfo\<close>, which line 152 does not look at) and
  leaves the remote as it was.
\<close>

definition remote_push :: "env \<Rightarrow> 'm repo \<Rightarrow> string \<Rightarrow> ('m, unit) io" where
  "remote_push e repo branch =
     (case push_fault e of
        Some err \<Rightarrow> raise err
      | None \<Rightarrow>
          (case head_commit repo of
             None \<Rightarrow> raise (GitCommandError None)
           | Some t \<Rightarrow>
               if branch = active_branch repo
               then (if push_rejected e
                     then emit (PushRejected branch)
                     else (\<lambda>w. (Inr (), w\<lparr>remote := AList.update branch t (remote w),
                                            trace := trace w @ [Pushed branch]\<rparr>)))
               else raise (GitCommandError None)))"

section \<open>The publisher\<close>

definition shallow_clone_branch :: "env \<Rightarrow> string \<Rightarrow> path \<Rightarrow> string \<Rightarrow> ('m, 'm repo) io" where
  "shallow_clone_branch e branch to url =
     (\<lambda>w. case clone_from e url to branch True 1 w of
            (Inl (GitCommandError stderr), w') \<Rightarrow>
              (let expected_message =
                     ''fatal: Remote branch '' @ branch @ '' not found in upstream origin''
               in case stderr of
                    None \<Rightarrow> (Inl (GitCommandError stderr), w')
                  | Some s \<Rightarrow>
                      if s = [] then (Inl (GitCommandError stderr), w')
                      else (case penultimate (py_split CHR ''\<newline>'' [] s) of
                              Inl exc \<Rightarrow> (Inl exc, w')
                            | Inr line \<Rightarrow>
                                if line = expected_message
                                then (Inl (RemoteBranchNotFound branch), w')
                                else (Inl (GitCommandError stderr), w')))
          | (r, w') \<Rightarrow> (r, w'))"

text \<open>Lines 94 to 103: the branch of the library, or a new orphan branch off master.\<close>

definition resolve_branch :: "env \<Rightarrow> string \<Rightarrow> path \<Rightarrow> ('m, 'm repo) io" where
  "resolve_branch e branch_name repo_directory =
     except_RemoteBranchNotFound
       (bind_io (logger_debug (''Cloning branch '' @ branch_name)) (\<lambda>u.
          shallow_clone_branch e branch_name repo_directory (LIBBUILD_REPO_URI e)))
       (bind_io (logger_debug ''Branch not found. Making one.'') (\<lambda>u.
        bind_io (shallow_clone_branch e ''master'' repo_directory (LIBBUILD_REPO_URI e)) (\<lambda>repo.
          git_checkout_orphan repo branch_name)))"

text \<open>Lines 111 to 117: \<open>True\<close> when the function returns at line 117.\<close>

definition version_already_staged :: "'m version \<Rightarrow> bool \<Rightarrow> path \<Rightarrow> ('m, bool) io" where
  "version_already_staged version force version_filename =
     bind_io (exists version_filename) (\<lambda>present.
       if present then
         bind_io (read_file version_filename) (\<lambda>version_file.
         bind_io (load version_file) (\<lambda>staged_version.
           if version = staged_version \<and> \<not> force then
             bind_io (logger_info ''Staged version is equal to current version. Update not required.'')
               (\<lambda>u. return True)
           else return False))
       else return False)"

text \<open>Lines 121 to 135.\<close>

fun copy_examples :: "path \<Rightarrow> path \<Rightarrow> string list \<Rightarrow> path list \<Rightarrow> ('m, path list) io" where
  "copy_examples saved_examples_directory examples_directory [] example_files =
     return example_files"
| "copy_examples saved_examples_directory examples_directory (example_filename # rest) example_files =
     (let final_example_path = join examples_directory (Rel [example_filename])
      in bind_io (copyfile (join saved_examples_directory (Rel [example_filename]))
                    final_example_path) (\<lambda>u.
           copy_examples saved_examples_directory examples_directory rest
             (example_files @ [final_example_path])))"

definition stage_examples :: "env \<Rightarrow> nat \<Rightarrow> ('m, path list) io" where
  "stage_examples e lib_id =
     (let examples_directory = Rel [''examples'']
      in bind_io (exists examples_directory) (\<lambda>present.
         bind_io (if present then rmtree examples_directory else return ()) (\<lambda>u.
         bind_io (mkdir examples_directory) (\<lambda>u.
         let saved_examples_directory = get_libexample_dir e lib_id
         in bind_io (listdir saved_examples_directory) (\<lambda>names.
            copy_examples saved_examples_directory examples_directory names [])))))"

text \<open>
  Lines 137 to 146: the file is opened (and so emptied) before the template is
  formatted.
\<close>

definition write_travis_config :: "nat \<Rightarrow> 'm version \<Rightarrow> string list \<Rightarrow> path list \<Rightarrow> ('m, unit) io" where
  "write_travis_config lib_id version platforms example_files =
     bind_io (write_file TRAVIS_FILENAME (Text [])) (\<lambda>u.
     bind_io (lift (travis_config lib_id version platforms example_files)) (\<lambda>config.
       write_file TRAVIS_FILENAME (Text config)))"

text \<open>Lines 148 to 152.\<close>

definition make_commit :: "env \<Rightarrow> 'm repo \<Rightarrow> 'm version \<Rightarrow> string \<Rightarrow> path list \<Rightarrow> ('m, unit) io" where
  "make_commit e repo version branch_name example_files =
     bind_io (index_add repo (example_files @ [VERSION_FILENAME, TRAVIS_FILENAME])) (\<lambda>repo1.
     bind_io (lift (version_name version)) (\<lambda>library_version.
     bind_io (lift (py_format COMMIT_MESSAGE [(''library_version'', library_version)])) (\<lambda>message.
     bind_io (index_commit repo1 message) (\<lambda>repo2.
       remote_push e repo2 branch_name))))"

text \<open>The body of the outer \<^verbatim>\<open>try\<close>, lines 94 to 152.\<close>

definition publish_body ::
  "env \<Rightarrow> nat \<Rightarrow> 'm version \<Rightarrow> string list \<Rightarrow> bool \<Rightarrow> string \<Rightarrow> path \<Rightarrow> ('m, unit) io" where
  "publish_body e lib_id version platforms force branch_name repo_directory =
     bind_io (resolve_branch e branch_name repo_directory) (\<lambda>repo.
     bind_io (logger_info (''Cloned into '' @ path_str repo_directory)) (\<lambda>u.
     bind_io (chdir (Abs (working_tree_dir repo))) (\<lambda>u.
     let version_filename = join repo_directory VERSION_FILENAME
     in bind_io (version_already_staged version force version_filename) (\<lambda>skip.
        if skip then return ()
        else
          bind_io (write_file version_filename (Json version)) (\<lambda>u.
          bind_io (stage_examples e lib_id) (\<lambda>example_files.
          bind_io (write_travis_config lib_id version platforms example_files) (\<lambda>u.
            make_commit e repo version branch_name example_files)))))))"

definition think_of_name_later ::
  "env \<Rightarrow> nat \<Rightarrow> 'm version \<Rightarrow> string list \<Rightarrow> bool \<Rightarrow> ('m, unit) io" where
  "think_of_name_later e lib_id version platforms force =
     bind_io getcwd (\<lambda>original_working_directory.
     let branch_name = ''library-'' @ str_nat lib_id
     in bind_io (mkdtemp e (''pioapi-libbuild-'' @ str_nat lib_id @ ''-'')) (\<lambda>repo_directory.
        try_finally
          (except_Exception
             (publish_body e lib_id version platforms force branch_name repo_directory)
             (\<lambda>exc. logger_exception exc))
          (bind_io (chdir original_working_directory) (\<lambda>u. rmtree repo_directory))))"

text \<open>
  \<^verbatim>\<open>requests.get(url).json()\<close>: the request may raise, decoding the body may raise,
  and the decoded dictionary may lack either key.
\<close>

record 'm info =
  info_version :: "'m version option"
  info_platforms :: "string list option"

type_synonym 'm requests = "string \<Rightarrow> error + (error + 'm info)"

definition think_of_name_later_by_id :: "env \<Rightarrow> 'm requests \<Rightarrow> nat \<Rightarrow> ('m, unit) io" where
  "think_of_name_later_by_id e requests_get lib_id =
     bind_io (lift (requests_get (''http://api.platformio.org/lib/info/'' @ str_nat lib_id))) (\<lambda>response.
     bind_io (lift response) (\<lambda>info.
     bind_io (lift (case info_version info of
                      None \<Rightarrow> Inl (KeyError ''version'') | Some v \<Rightarrow> Inr v)) (\<lambda>version.
     bind_io (lift (case info_platforms info of
                      None \<Rightarrow> Inl (KeyError ''platforms'') | Some ps \<Rightarrow> Inr ps)) (\<lambda>platforms.
       think_of_name_later e lib_id version platforms False))))"

section \<open>The board resolution the specification describes\<close>

text \<open>
  The specification's wording of the resolution, for comparison with the code: the
  boards of the registry lookup when it yields any, those of the static table otherwise.
\<close>

definition resolve_boards_spec :: "registry \<Rightarrow> string list \<Rightarrow> string list" where
  "resolve_boards_spec get_boards platforms =
     (let dynamic = get_all_boards_by_platforms get_boards platforms
      in if dynamic \<noteq> [] then dynamic else get_boards_by_platforms platforms)"

text \<open>The rendered configuration up to the build command, for given field values.\<close>

definition travis_before_build :: "string \<Rightarrow> string \<Rightarrow> string \<Rightarrow> string" where
  "travis_before_build envs library_version library_id =
     ''language: python\<newline>python:\<newline>    - \"2.7\"\<newline>\<newline>sudo: false\<newline>\<newline># Cache PlatformIO packages using Travis CI container-based infrastructure\<newline>cache:\<newline>    directories:\<newline>        - \"~/.platformio\"\<newline>\<newline>env:\<newline>'' @ envs @
     ''\<newline>\<newline>install:\<newline>    - pip install -U platformio\<newline>\<newline>script:\<newline>    - platformio --force lib install --version='' @ library_version @ '' '' @ library_id"

section \<open>Clone errors\<close>

text \<open>
  The test of lines 67 to 69: the error of the clone says that the branch is not on the
  remote.
\<close>

definition reports_branch_not_found :: "string \<Rightarrow> error \<Rightarrow> bool" where
  "reports_branch_not_found branch exc =
     (case exc of
        GitCommandError (Some s) \<Rightarrow>
          s \<noteq> [] \<and>
          penultimate (py_split CHR ''\<newline>'' [] s) =
            Inr (''fatal: Remote branch '' @ branch @ '' not found in upstream origin'')
      | _ \<Rightarrow> False)"

text \<open>
  What \<^verbatim>\<open>Repo.clone_from\<close> can raise: not the \<^verbatim>\<open>RemoteBranchNotFound\<close> of this
  package, and a \<^verbatim>\<open>GitCommandError\<close> whose standard error, when there is any, has a
  line break (git ends every line it writes with one).
\<close>

definition clone_error :: "error \<Rightarrow> bool" where
  "clone_error exc =
     (case exc of
        RemoteBranchNotFound b \<Rightarrow> False
      | GitCommandError (Some s) \<Rightarrow> s = [] \<or> CHR ''\<newline>'' \<in> set s
      | _ \<Rightarrow> True)"

section \<open>Observing a call\<close>

text \<open>The events a run from \<open>w\<close> to \<open>w'\<close> added to the trace.\<close>

definition new_events :: "'m world \<Rightarrow> 'm world \<Rightarrow> event list" where
  "new_events w w' = drop (length (trace w)) (trace w')"

text \<open>
  The tree a branch of the remote holds (empty when there is no such branch), and the
  entries of a tree below \<^verbatim>\<open>examples/\<close>.
\<close>

definition published :: "'m world \<Rightarrow> string \<Rightarrow> 'm tree" where
  "published w branch = (case map_of (remote w) branch of None \<Rightarrow> [] | Some t \<Rightarrow> t)"

definition examples_of :: "'m tree \<Rightarrow> 'm tree" where
  "examples_of t = filter (\<lambda>(p, c). prefix [''examples''] p) t"

text \<open>The directory \<^verbatim>\<open>mkdtemp\<close> creates for a library.\<close>

definition checkout_dir :: "env \<Rightarrow> nat \<Rightarrow> string list" where
  "checkout_dir e lib_id = tempdir e @ [''pioapi-libbuild-'' @ str_nat lib_id @ ''-'' @ tmp_suffix e]"

section \<open>Invariants of a run\<close>

text \<open>
  \<open>preserves I m\<close>: whatever \<open>m\<close> returns or raises, it leaves a world that satisfies
  \<open>I\<close> in one that does. \<open>confined d w0 w\<close>: the directory \<open>d\<close> is there, and nothing
  outside it differs from \<open>w0\<close>; \<open>in_checkout\<close> adds that \<open>d\<close> is the working
  directory.
\<close>

definition preserves :: "('m world \<Rightarrow> bool) \<Rightarrow> ('m, 'a) io \<Rightarrow> bool" where
  "preserves I m = (\<forall>w r w'. I w \<longrightarrow> m w = (r, w') \<longrightarrow> I w')"

definition confined :: "string list \<Rightarrow> 'm world \<Rightarrow> 'm world \<Rightarrow> bool" where
  "confined d w0 w =
     (is_dir (fs w) d \<and> (\<forall>x. \<not> prefix d x \<longrightarrow> lookup (fs w) x = lookup (fs w0) x))"

definition in_checkout :: "string list \<Rightarrow> 'm world \<Rightarrow> 'm world \<Rightarrow> bool" where
  "in_checkout d w0 w = (cwd w = d \<and> confined d w0 w)"

text \<open>\<open>emits P m\<close>: a run of \<open>m\<close> only appends to the trace, and only events that satisfy \<open>P\<close>.\<close>

definition emits :: "(event \<Rightarrow> bool) \<Rightarrow> ('m, 'a) io \<Rightarrow> bool" where
  "emits P m = (\<forall>w r w'. m w = (r, w') \<longrightarrow> (\<exists>evs. trace w' = trace w @ evs \<and> list_all P evs))"





section \<open>Example inputs\<close>

text \<open>
  A registry answer, an environment and worlds on which the statements below are
  evaluated: library 75 with one example sketch, a remote with \<^verbatim>\<open>master\<close> and a
  branch \<^verbatim>\<open>library-75\<close> that stages version 1.0.0.
\<close>

definition example_registry :: registry where
  "example_registry = [(''diecimilaatmega328'', Some ''atmelavr''), (''teensy31'', Some ''teensy'')]"

definition example_env :: env where
  "example_env =
     \<lparr>LIBBUILD_REPO_URI = ''git@host:libs.git'', tempdir = [''tmp''], tmp_suffix = ''aB3dE9'',
      get_libexample_dir = (\<lambda>n. Abs [''srv'', ''examples'', str_nat n]),
      clone_fault = (\<lambda>b. None), push_fault = None, push_rejected = False\<rparr>"

definition version_1 :: "unit version" where
  "version_1 = \<lparr>vname = Some ''1.0.0'', vmeta = ()\<rparr>"

definition version_2 :: "unit version" where
  "version_2 = \<lparr>vname = Some ''2.0.0'', vmeta = ()\<rparr>"

definition library_75_tree :: "unit tree" where
  "library_75_tree =
     [([''_version.json''], Json version_1),
      ([''examples'', ''old.ino''], Text ''void loop(){}''),
      ([''.travis.yml''], Text ''language: python'')]"

definition example_world :: "unit world" where
  "example_world =
     \<lparr>cwd = [''home''],
      fs = [([], Dir), ([''home''], Dir), ([''tmp''], Dir), ([''srv''], Dir),
            ([''srv'', ''examples''], Dir), ([''srv'', ''examples'', ''75''], Dir),
            ([''srv'', ''examples'', ''75'', ''new.ino''], File (Text ''void setup(){}''))],
      remote = [(''master'', [([''README''], Text ''libraries'')]),
                (''library-75'', library_75_tree)],
      trace = []\<rparr>"

text \<open>A checkout the working directory is already in, as after line 107.\<close>

definition checkout_world :: "unit world" where
  "checkout_world =
     \<lparr>cwd = [''tmp'', ''co''],
      fs = [([], Dir), ([''tmp''], Dir), ([''tmp'', ''co''], Dir),
            ([''tmp'', ''co'', ''examples''], Dir),
            ([''tmp'', ''co'', ''examples'', ''old.ino''], File (Text ''void loop(){}'')),
            ([''srv''], Dir), ([''srv'', ''examples''], Dir), ([''srv'', ''examples'', ''75''], Dir),
            ([''srv'', ''examples'', ''75'', ''new.ino''], File (Text ''void setup(){}''))],
      remote = [],
      trace = []\<rparr>"

text \<open>
  An environment whose clone fails with an error whose standard error has no line break
  (not an error of git: see \<open>clone_error\<close>).
\<close>

definition unreachable_env :: env where
  "unreachable_env =
     example_env\<lparr>clone_fault :=
       (\<lambda>b. Some (GitCommandError (Some ''fatal: unable to access the repository'')))\<rparr>"

text \<open>Registry answers: a decoded document, a body that is not JSON, no connection.\<close>

definition registry_answers :: "unit requests" where
  "registry_answers url =
     (if url = ''http://api.platformio.org/lib/info/75''
      then Inr (Inr \<lparr>info_version = Some version_2, info_platforms = Some [''atmelavr'']\<rparr>)
      else if url = ''http://api.platformio.org/lib/info/76''
      then Inr (Inl ValueError)
      else Inl ConnectionError)"

text \<open>An environment whose clone fails as git does without a network.\<close>

definition offline_stderr :: string where
  "offline_stderr =
     ''fatal: unable to access the repository: Could not resolve host\<newline>''"

definition offline_env :: env where
  "offline_env = example_env\<lparr>clone_fault := (\<lambda>b. Some (GitCommandError (Some offline_stderr)))\<rparr>"


section \<open>Facts about strings and board resolution\<close>

lemma travis_template_format:
  "py_format TRAVIS_CONFIG_TEMPLATE
     [(''envs'', envs), (''boards'', boards), (''library_version'', v), (''library_id'', i)] =
   Inr (''language: python\<newline>python:\<newline>    - \"2.7\"\<newline>\<newline>sudo: false\<newline>\<newline># Cache PlatformIO packages using Travis CI container-based infrastructure\<newline>cache:\<newline>    directories:\<newline>        - \"~/.platformio\"\<newline>\<newline>env:\<newline>'' @ envs @
        ''\<newline>\<newline>install:\<newline>    - pip install -U platformio\<newline>\<newline>script:\<newline>    - platformio --force lib install --version='' @ v @ '' '' @ i @
        ''\<newline>    - platformio --force ci '' @ boards @ ''\<newline>'')"
  by (simp add: py_format_def TRAVIS_CONFIG_TEMPLATE_def)

lemma boards_loop_concat:
  "boards_loop platforms acc =
     acc @ concat (map (\<lambda>p. case map_of BOARDS p of None \<Rightarrow> [] | Some bs \<Rightarrow> bs) platforms)"
  by (induction platforms arbitrary: acc) simp_all

lemma get_boards_by_platforms_concat:
  "get_boards_by_platforms platforms =
     concat (map (\<lambda>p. case map_of BOARDS p of None \<Rightarrow> [] | Some bs \<Rightarrow> bs) platforms)"
  by (simp add: get_boards_by_platforms_def boards_loop_concat)

lemma py_join_concat:
  "xs \<noteq> [] \<Longrightarrow> py_join sep xs @ sep = concat (map (\<lambda>x. x @ sep) xs)"
  by (induction sep xs rule: py_join.induct) simp_all

lemma py_join_concat_left:
  "xs \<noteq> [] \<Longrightarrow> sep @ py_join sep xs = concat (map (\<lambda>x. sep @ x) xs)"
  by (induction sep xs rule: py_join.induct) simp_all

lemma map_of_BOARDS_unknown:
  "p \<noteq> ''atmelavr'' \<Longrightarrow> p \<noteq> ''teensy'' \<Longrightarrow> map_of BOARDS p = None"
  by (simp add: BOARDS_def)

lemma travis_config_named:
  "vname version = Some n \<Longrightarrow>
   travis_config lib_id version platforms example_files =
     Inr (''language: python\<newline>python:\<newline>    - \"2.7\"\<newline>\<newline>sudo: false\<newline>\<newline># Cache PlatformIO packages using Travis CI container-based infrastructure\<newline>cache:\<newline>    directories:\<newline>        - \"~/.platformio\"\<newline>\<newline>env:\<newline>'' @
          travis_envs example_files @
          ''\<newline>\<newline>install:\<newline>    - pip install -U platformio\<newline>\<newline>script:\<newline>    - platformio --force lib install --version='' @ n @ '' '' @ str_nat lib_id @
          ''\<newline>    - platformio --force ci '' @ travis_boards platforms @ ''\<newline>'')"
  unfolding travis_config_def version_name_def Let_def
  by (simp only: option.case sum.case travis_template_format)

lemma travis_config_build_line:
  "vname version = Some n \<Longrightarrow>
   travis_config lib_id version platforms example_files =
     Inr (travis_before_build (travis_envs example_files) n (str_nat lib_id) @
          ''\<newline>    - platformio --force ci '' @ travis_boards platforms @ ''\<newline>'')"
  by (simp only: travis_config_named travis_before_build_def append_assoc)

section \<open>The rendered CI configuration\<close>

text \<open>
  C7. The rendered configuration is the fixed template: after \<^verbatim>\<open>env:\<close> one line
  \<^verbatim>\<open>- PLATFORMIO_CI_SRC=<path>\<close> for each staged example path, in staging order; in
  the \<^verbatim>\<open>script:\<close> step the install command with \<^verbatim>\<open>--version=<name> <id>\<close>, then
  the build command with one \<^verbatim>\<open>--board=<name>\<close> flag for each resolved board,
  separated by spaces, in resolution order.
\<close>

theorem travis_config_fixed_structure:
  "vname version = Some n \<Longrightarrow>
   travis_config lib_id version platforms example_files =
     Inr (''language: python\<newline>python:\<newline>    - \"2.7\"\<newline>\<newline>sudo: false\<newline>\<newline># Cache PlatformIO packages using Travis CI container-based infrastructure\<newline>cache:\<newline>    directories:\<newline>        - \"~/.platformio\"\<newline>\<newline>env:\<newline>'' @
          travis_envs example_files @
          ''\<newline>\<newline>install:\<newline>    - pip install -U platformio\<newline>\<newline>script:\<newline>    - platformio --force lib install --version='' @ n @ '' '' @ str_nat lib_id @
          ''\<newline>    - platformio --force ci '' @ travis_boards platforms @ ''\<newline>'')
   \<and> (example_files \<noteq> [] \<longrightarrow>
        travis_envs example_files @ ''\<newline>'' =
          concat (map (\<lambda>p. ''    - PLATFORMIO_CI_SRC='' @ path_str p @ ''\<newline>'') example_files))
   \<and> (get_boards_by_platforms platforms \<noteq> [] \<longrightarrow>
        '' '' @ travis_boards platforms =
          concat (map (\<lambda>b. '' --board='' @ b) (get_boards_by_platforms platforms)))"
proof (intro conjI impI)
  assume "vname version = Some n"
  then show "travis_config lib_id version platforms example_files =
     Inr (''language: python\<newline>python:\<newline>    - \"2.7\"\<newline>\<newline>sudo: false\<newline>\<newline># Cache PlatformIO packages using Travis CI container-based infrastructure\<newline>cache:\<newline>    directories:\<newline>        - \"~/.platformio\"\<newline>\<newline>env:\<newline>'' @
          travis_envs example_files @
          ''\<newline>\<newline>install:\<newline>    - pip install -U platformio\<newline>\<newline>script:\<newline>    - platformio --force lib install --version='' @ n @ '' '' @ str_nat lib_id @
          ''\<newline>    - platformio --force ci '' @ travis_boards platforms @ ''\<newline>'')"
    by (rule travis_config_named)
next
  assume "example_files \<noteq> []"
  then have "map (\<lambda>p. ''    - PLATFORMIO_CI_SRC='' @ path_str p) example_files \<noteq> []"
    by simp
  from py_join_concat [OF this, of "''\<newline>''"]
  show "travis_envs example_files @ ''\<newline>'' =
          concat (map (\<lambda>p. ''    - PLATFORMIO_CI_SRC='' @ path_str p @ ''\<newline>'') example_files)"
    by (simp add: travis_envs_def comp_def)
next
  assume "get_boards_by_platforms platforms \<noteq> []"
  then have "map (\<lambda>b. ''--board='' @ b) (get_boards_by_platforms platforms) \<noteq> []"
    by simp
  from py_join_concat_left [OF this, of "'' ''"]
  show "'' '' @ travis_boards platforms =
          concat (map (\<lambda>b. '' --board='' @ b) (get_boards_by_platforms platforms))"
    by (simp add: travis_boards_def comp_def)
qed

theorem travis_config_fixed_structure_witness:
  "vname \<lparr>vname = Some ''1.0.0'', vmeta = ()\<rparr> = Some ''1.0.0''
   \<and> [Rel [''examples'', ''a.ino''], Rel [''examples'', ''b.ino'']] \<noteq> []
   \<and> get_boards_by_platforms [''teensy''] \<noteq> []
   \<and> travis_config 75 \<lparr>vname = Some ''1.0.0'', vmeta = ()\<rparr> [''teensy'']
        [Rel [''examples'', ''a.ino''], Rel [''examples'', ''b.ino'']] =
      Inr (''language: python\<newline>python:\<newline>    - \"2.7\"\<newline>\<newline>sudo: false\<newline>\<newline># Cache PlatformIO packages using Travis CI container-based infrastructure\<newline>cache:\<newline>    directories:\<newline>        - \"~/.platformio\"\<newline>\<newline>env:\<newline>    - PLATFORMIO_CI_SRC=examples/a.ino\<newline>    - PLATFORMIO_CI_SRC=examples/b.ino\<newline>\<newline>install:\<newline>    - pip install -U platformio\<newline>\<newline>script:\<newline>    - platformio --force lib install --version=1.0.0 75\<newline>    - platformio --force ci --board=teensy20 --board=teensy31\<newline>'')"
  using travis_config_fixed_structure
          [of "\<lparr>vname = Some ''1.0.0'', vmeta = ()\<rparr>" "''1.0.0''" 75 "[''teensy'']"
              "[Rel [''examples'', ''a.ino''], Rel [''examples'', ''b.ino'']]"]
  by (simp add: travis_envs_def travis_boards_def get_boards_by_platforms_def BOARDS_def
        str_nat.simps)

text \<open>
  C8. For the platform list \<^verbatim>\<open>["atmelavr"]\<close> the resolved boards are those of the
  static table, in its order, and the build command of the rendered configuration is
  \<^verbatim>\<open>platformio --force ci --board=uno --board=leonardo --board=megaatmega2560\<close>.
\<close>

theorem atmelavr_board_flags:
  "get_boards_by_platforms [''atmelavr''] = [''uno'', ''leonardo'', ''megaatmega2560'']
   \<and> (vname version = Some n \<longrightarrow>
        (\<exists>pre. travis_config lib_id version [''atmelavr''] example_files =
           Inr (pre @ ''    - platformio --force ci --board=uno --board=leonardo --board=megaatmega2560\<newline>'')))"
proof (intro conjI impI)
  show b: "get_boards_by_platforms [''atmelavr''] = [''uno'', ''leonardo'', ''megaatmega2560'']"
    by (simp add: get_boards_by_platforms_def BOARDS_def)
  assume "vname version = Some n"
  from travis_config_build_line [OF this, of lib_id "[''atmelavr'']" example_files]
  have eq: "travis_config lib_id version [''atmelavr''] example_files =
     Inr ((travis_before_build (travis_envs example_files) n (str_nat lib_id) @ ''\<newline>'') @
          ''    - platformio --force ci --board=uno --board=leonardo --board=megaatmega2560\<newline>'')"
    by (simp add: travis_boards_def b)
  show "\<exists>pre. travis_config lib_id version [''atmelavr''] example_files =
           Inr (pre @ ''    - platformio --force ci --board=uno --board=leonardo --board=megaatmega2560\<newline>'')"
    by (rule exI) (rule eq)
qed

theorem atmelavr_board_flags_witness:
  "vname \<lparr>vname = Some ''2.1'', vmeta = ()\<rparr> = Some ''2.1''
   \<and> (\<exists>pre. travis_config 75 \<lparr>vname = Some ''2.1'', vmeta = ()\<rparr> [''atmelavr''] [] =
         Inr (pre @ ''    - platformio --force ci --board=uno --board=leonardo --board=megaatmega2560\<newline>''))"
proof -
  have h: "vname \<lparr>vname = Some ''2.1'', vmeta = ()\<rparr> = Some ''2.1''"
    by simp
  from atmelavr_board_flags [of "\<lparr>vname = Some ''2.1'', vmeta = ()\<rparr>" "''2.1''" 75 "[]"] h
  show ?thesis
    by blast
qed

text \<open>
  C10. The resolved board list is the concatenation, in order, of the static table's
  entries for the listed platforms (a platform listed twice contributes twice, a platform
  not in the table contributes nothing and raises nothing). When no listed platform is
  \<^verbatim>\<open>atmelavr\<close> or \<^verbatim>\<open>teensy\<close> the list is empty and the build command of the rendered
  configuration carries no \<^verbatim>\<open>--board=\<close> flag.
\<close>

theorem unknown_platforms_resolve_no_boards:
  "get_boards_by_platforms platforms =
     concat (map (\<lambda>p. case map_of BOARDS p of None \<Rightarrow> [] | Some bs \<Rightarrow> bs) platforms)
   \<and> ((\<forall>p \<in> set platforms. p \<noteq> ''atmelavr'' \<and> p \<noteq> ''teensy'') \<longrightarrow>
        get_boards_by_platforms platforms = []
        \<and> travis_boards platforms = []
        \<and> (\<forall>lib_id n m example_files.
             \<exists>pre. travis_config lib_id \<lparr>vname = Some n, vmeta = m\<rparr> platforms example_files =
                     Inr (pre @ ''\<newline>    - platformio --force ci \<newline>'')))"
proof (intro conjI impI)
  show "get_boards_by_platforms platforms =
     concat (map (\<lambda>p. case map_of BOARDS p of None \<Rightarrow> [] | Some bs \<Rightarrow> bs) platforms)"
    by (rule get_boards_by_platforms_concat)
next
  assume unknown: "\<forall>p \<in> set platforms. p \<noteq> ''atmelavr'' \<and> p \<noteq> ''teensy''"
  then have "\<forall>p \<in> set platforms. map_of BOARDS p = None"
    by (simp add: map_of_BOARDS_unknown)
  then show none: "get_boards_by_platforms platforms = []"
    by (simp add: get_boards_by_platforms_concat)
  then show flags: "travis_boards platforms = []"
    by (simp add: travis_boards_def)
  show "\<forall>lib_id n m example_files.
          \<exists>pre. travis_config lib_id \<lparr>vname = Some n, vmeta = m\<rparr> platforms example_files =
                  Inr (pre @ ''\<newline>    - platformio --force ci \<newline>'')"
  proof (intro allI)
    fix lib_id :: nat and n :: string and m and example_files :: "path list"
    have "vname \<lparr>vname = Some n, vmeta = m\<rparr> = Some n"
      by simp
    from travis_config_build_line [OF this, of lib_id platforms example_files]
    have eq: "travis_config lib_id \<lparr>vname = Some n, vmeta = m\<rparr> platforms example_files =
      Inr (travis_before_build (travis_envs example_files) n (str_nat lib_id) @
           ''\<newline>    - platformio --force ci \<newline>'')"
      by (simp add: flags)
    show "\<exists>pre. travis_config lib_id \<lparr>vname = Some n, vmeta = m\<rparr> platforms example_files =
                  Inr (pre @ ''\<newline>    - platformio --force ci \<newline>'')"
      by (rule exI) (rule eq)
  qed
qed

theorem unknown_platforms_resolve_no_boards_witness:
  "''espressif'' \<noteq> ''atmelavr'' \<and> ''espressif'' \<noteq> ''teensy''
   \<and> ''ststm32'' \<noteq> ''atmelavr'' \<and> ''ststm32'' \<noteq> ''teensy''
   \<and> get_boards_by_platforms [''espressif'', ''ststm32''] = []
   \<and> travis_boards [''espressif'', ''ststm32''] = []"
proof -
  have h: "\<forall>p \<in> set [''espressif'', ''ststm32'']. p \<noteq> ''atmelavr'' \<and> p \<noteq> ''teensy''"
    by simp
  from unknown_platforms_resolve_no_boards [of "[''espressif'', ''ststm32'']"] h
  have "get_boards_by_platforms [''espressif'', ''ststm32''] = []
        \<and> travis_boards [''espressif'', ''ststm32''] = []"
    by blast
  then show ?thesis
    by simp
qed

section \<open>Sequencing\<close>

lemma bind_ioE:
  assumes "bind_io m f w = (r, w')"
  obtains (err) exc where "m w = (Inl exc, w')" and "r = Inl exc"
        | (ok) x w1 where "m w = (Inr x, w1)" and "f x w1 = (r, w')"
  using assms by (auto simp: bind_io_def split: prod.splits sum.splits)

lemma bind_io_InrE:
  assumes "bind_io m f w = (Inr y, w')"
  obtains x w1 where "m w = (Inr x, w1)" and "f x w1 = (Inr y, w')"
  using assms by (auto simp: bind_io_def split: prod.splits sum.splits)

lemma bind_io_Inr:
  "m w = (Inr x, w1) \<Longrightarrow> bind_io m f w = f x w1"
  by (simp add: bind_io_def)

lemma bind_io_Inl:
  "m w = (Inl exc, w1) \<Longrightarrow> bind_io m f w = (Inl exc, w1)"
  by (simp add: bind_io_def)

lemma lift_Inr: "lift (Inr x) w = (Inr x, w)"
  by (simp add: lift_def return_def)

lemma lift_Inl: "lift (Inl exc) w = (Inl exc, w)"
  by (simp add: lift_def raise_def)

lemma lift_result: "lift r w = (r', w') \<Longrightarrow> r' = r \<and> w' = w"
  by (cases r) (simp_all add: lift_Inr lift_Inl)

section \<open>The file-system table\<close>

lemma lookup_update:
  "lookup (AList.update q v f) x = (if x = q then Some v else lookup f x)"
  by (simp add: lookup_def update_conv')

lemma lookup_remove_tree:
  "lookup (remove_tree p f) x = (if prefix p x then None else lookup f x)"
  unfolding lookup_def remove_tree_def
  by (induction f) auto

lemma lookup_append_entry:
  "lookup (f @ [(q, n)]) x =
     (case lookup f x of Some y \<Rightarrow> Some y | None \<Rightarrow> if x = q then Some n else None)"
  unfolding lookup_def
  by (simp add: map_of_append map_add_def split: option.splits)

lemma fresh_lookup: "fresh f p \<Longrightarrow> prefix p x \<Longrightarrow> lookup f x = None"
  unfolding fresh_def lookup_def list_all_iff
  by (auto simp: map_of_eq_None_iff image_iff)

lemma fresh_remove_tree: "fresh (remove_tree p f) p"
  unfolding fresh_def remove_tree_def list_all_iff
  by auto


lemma map_of_checkout_files_outside:
  "\<not> prefix d x \<Longrightarrow> map_of (map (\<lambda>(p, c). (d @ p, File c)) t) x = None"
  by (induction t) (auto simp: prefix_def)

lemma map_of_checkout_dirs_outside:
  "\<not> prefix d x \<Longrightarrow> map_of (map (\<lambda>p. (d @ p, Dir)) ds) x = None"
  by (induction ds) (auto simp: prefix_def)

lemma lookup_checkout_root: "lookup (checkout_tree d t f) d = Some Dir"
  by (simp add: lookup_def checkout_tree_def)

lemma lookup_checkout_outside:
  "\<not> prefix d x \<Longrightarrow> lookup (checkout_tree d t f) x = lookup f x"
proof -
  assume out: "\<not> prefix d x"
  then have "x \<noteq> d" and "x \<noteq> d @ [''.git'']"
    by (auto simp: prefix_def)
  with out show ?thesis
    using lookup_remove_tree [of d f x]
    by (simp add: lookup_def checkout_tree_def map_of_append map_add_def
          map_of_checkout_files_outside map_of_checkout_dirs_outside)
qed


lemma write_file_Inr:
  "write_file p c w = (Inr u, w') \<Longrightarrow>
   w' = w\<lparr>fs := AList.update (resolve w p) (File c) (fs w),
           trace := trace w @ [WroteFile (resolve w p)]\<rparr>"
  by (auto simp: write_file_def Let_def split: if_splits)

lemma resolve_cwd: "cwd w' = cwd w \<Longrightarrow> resolve w' p = resolve w p"
  by (simp add: resolve_def split: path.splits)

lemma travis_config_Inr_named:
  "travis_config lib_id version platforms example_files = Inr config \<Longrightarrow>
   \<exists>n. vname version = Some n"
  by (cases "vname version") (simp_all add: travis_config_def version_name_def Let_def)

section \<open>Where the boards of the CI script come from\<close>

text \<open>
  C1 (as amended). Whenever the configuration is written, the \<^verbatim>\<open>--board=\<close> flags of
  the file are those of the static table for the listed platforms, in order; no registry
  lookup takes part.
\<close>

theorem ci_boards_from_static_table:
  assumes "write_travis_config lib_id version platforms example_files w = (Inr (), w')"
  shows "\<exists>pre. lookup (fs w') (resolve w TRAVIS_FILENAME) =
           Some (File (Text (pre @ ''    - platformio --force ci '' @
             py_join '' '' (map (\<lambda>b. ''--board='' @ b)
               (concat (map (\<lambda>p. case map_of BOARDS p of None \<Rightarrow> [] | Some bs \<Rightarrow> bs) platforms))) @
             ''\<newline>'')))"
proof -
  from assms obtain u1 w1 where
    opened: "write_file TRAVIS_FILENAME (Text []) w = (Inr u1, w1)" and
    rest: "bind_io (lift (travis_config lib_id version platforms example_files))
             (\<lambda>config. write_file TRAVIS_FILENAME (Text config)) w1 = (Inr (), w')"
    unfolding write_travis_config_def by (rule bind_io_InrE)
  from rest obtain config w2 where
    rendered: "lift (travis_config lib_id version platforms example_files) w1 = (Inr config, w2)" and
    written: "write_file TRAVIS_FILENAME (Text config) w2 = (Inr (), w')"
    by (rule bind_io_InrE)
  have config: "travis_config lib_id version platforms example_files = Inr config"
    and w2: "w2 = w1"
    using lift_result [OF rendered] by simp_all
  from write_file_Inr [OF opened] have "cwd w1 = cwd w"
    by simp
  then have same: "resolve w1 TRAVIS_FILENAME = resolve w TRAVIS_FILENAME"
    by (rule resolve_cwd)
  from write_file_Inr [OF written] w2 same
  have in_file: "lookup (fs w') (resolve w TRAVIS_FILENAME) = Some (File (Text config))"
    by (simp add: lookup_update)
  from travis_config_Inr_named [OF config] obtain n where "vname version = Some n" ..
  from travis_config_build_line [OF this, of lib_id platforms example_files] config
  have "config = (travis_before_build (travis_envs example_files) n (str_nat lib_id) @ ''\<newline>'') @
          ''    - platformio --force ci '' @
             py_join '' '' (map (\<lambda>b. ''--board='' @ b)
               (concat (map (\<lambda>p. case map_of BOARDS p of None \<Rightarrow> [] | Some bs \<Rightarrow> bs) platforms))) @
             ''\<newline>''"
    by (simp add: travis_boards_def get_boards_by_platforms_concat)
  with in_file have "lookup (fs w') (resolve w TRAVIS_FILENAME) =
           Some (File (Text ((travis_before_build (travis_envs example_files) n (str_nat lib_id) @ ''\<newline>'') @
             ''    - platformio --force ci '' @
             py_join '' '' (map (\<lambda>b. ''--board='' @ b)
               (concat (map (\<lambda>p. case map_of BOARDS p of None \<Rightarrow> [] | Some bs \<Rightarrow> bs) platforms))) @
             ''\<newline>'')))"
    by simp
  then show ?thesis
    by (rule exI [where P = "\<lambda>pre. lookup (fs w') (resolve w TRAVIS_FILENAME) =
           Some (File (Text (pre @ ''    - platformio --force ci '' @
             py_join '' '' (map (\<lambda>b. ''--board='' @ b)
               (concat (map (\<lambda>p. case map_of BOARDS p of None \<Rightarrow> [] | Some bs \<Rightarrow> bs) platforms))) @
             ''\<newline>'')))"])
qed

lemma write_travis_config_example:
  "fst (write_travis_config 75 version_2 [''atmelavr''] [Rel [''examples'', ''new.ino'']] checkout_world) = Inr ()"
  by (simp add: write_travis_config_def bind_io_def write_file_def Let_def resolve_def
        TRAVIS_FILENAME_def checkout_world_def parent_is_dir_def is_dir_def lookup_def
        travis_config_named version_2_def lift_def return_def)

theorem ci_boards_from_static_table_witness:
  "fst (write_travis_config 75 version_2 [''atmelavr''] [Rel [''examples'', ''new.ino'']] checkout_world) = Inr ()
   \<and> (\<exists>pre. lookup (fs (snd (write_travis_config 75 version_2 [''atmelavr'']
                              [Rel [''examples'', ''new.ino'']] checkout_world)))
               [''tmp'', ''co'', ''.travis.yml''] =
         Some (File (Text (pre @ ''    - platformio --force ci --board=uno --board=leonardo --board=megaatmega2560\<newline>''))))"
proof -
  have run: "write_travis_config 75 version_2 [''atmelavr''] [Rel [''examples'', ''new.ino'']] checkout_world =
      (Inr (), snd (write_travis_config 75 version_2 [''atmelavr''] [Rel [''examples'', ''new.ino'']] checkout_world))"
    using write_travis_config_example
    by (metis prod.collapse)
  from ci_boards_from_static_table [OF run] write_travis_config_example
  show ?thesis
    by (simp add: BOARDS_def resolve_def TRAVIS_FILENAME_def checkout_world_def)
qed

text \<open>
  C1 as the specification states it fails: for \<^verbatim>\<open>["atmelavr"]\<close> the registry lookup
  yields a board, and the flags are still those of the static table.
\<close>

theorem registry_lookup_not_used:
  "get_all_boards_by_platforms example_registry [''atmelavr''] = [''diecimilaatmega328'']
   \<and> resolve_boards_spec example_registry [''atmelavr''] = [''diecimilaatmega328'']
   \<and> travis_boards [''atmelavr''] = ''--board=uno --board=leonardo --board=megaatmega2560''
   \<and> travis_boards [''atmelavr''] \<noteq>
       py_join '' '' (map (\<lambda>b. ''--board='' @ b) (resolve_boards_spec example_registry [''atmelavr'']))"
  by (simp add: get_all_boards_by_platforms_def resolve_boards_spec_def example_registry_def
        travis_boards_def get_boards_by_platforms_def BOARDS_def)

section \<open>Publishing by id\<close>

text \<open>
  C9. \<^verbatim>\<open>think_of_name_later_by_id\<close> requests
  \<^verbatim>\<open>http://api.platformio.org/lib/info/<id>\<close>; a failure of the request or of the
  decoding leaves the function as it is raised, with nothing else done; otherwise the
  publisher is called with the \<^verbatim>\<open>version\<close> and \<^verbatim>\<open>platforms\<close> entries.
\<close>

theorem by_id_fetches_then_publishes:
  "(requests_get (''http://api.platformio.org/lib/info/'' @ str_nat lib_id) = Inl exc \<longrightarrow>
      think_of_name_later_by_id e requests_get lib_id w = (Inl exc, w))
   \<and> (requests_get (''http://api.platformio.org/lib/info/'' @ str_nat lib_id) = Inr (Inl exc) \<longrightarrow>
      think_of_name_later_by_id e requests_get lib_id w = (Inl exc, w))
   \<and> (requests_get (''http://api.platformio.org/lib/info/'' @ str_nat lib_id) =
        Inr (Inr \<lparr>info_version = Some version, info_platforms = Some platforms\<rparr>) \<longrightarrow>
      think_of_name_later_by_id e requests_get lib_id w =
        think_of_name_later e lib_id version platforms False w)"
  by (simp add: think_of_name_later_by_id_def bind_io_def lift_def raise_def return_def)

theorem by_id_fetches_then_publishes_witness:
  "registry_answers (''http://api.platformio.org/lib/info/'' @ str_nat 77) = Inl ConnectionError
   \<and> think_of_name_later_by_id example_env registry_answers 77 example_world =
       (Inl ConnectionError, example_world)
   \<and> registry_answers (''http://api.platformio.org/lib/info/'' @ str_nat 76) = Inr (Inl ValueError)
   \<and> think_of_name_later_by_id example_env registry_answers 76 example_world =
       (Inl ValueError, example_world)
   \<and> registry_answers (''http://api.platformio.org/lib/info/'' @ str_nat 75) =
       Inr (Inr \<lparr>info_version = Some version_2, info_platforms = Some [''atmelavr'']\<rparr>)
   \<and> think_of_name_later_by_id example_env registry_answers 75 example_world =
       think_of_name_later example_env 75 version_2 [''atmelavr''] False example_world"
proof -
  have a: "registry_answers (''http://api.platformio.org/lib/info/'' @ str_nat 77) = Inl ConnectionError"
    by (simp add: registry_answers_def str_nat.simps)
  have b: "registry_answers (''http://api.platformio.org/lib/info/'' @ str_nat 76) = Inr (Inl ValueError)"
    by (simp add: registry_answers_def str_nat.simps)
  have c: "registry_answers (''http://api.platformio.org/lib/info/'' @ str_nat 75) =
       Inr (Inr \<lparr>info_version = Some version_2, info_platforms = Some [''atmelavr'']\<rparr>)"
    by (simp add: registry_answers_def str_nat.simps)
  from a b c
    by_id_fetches_then_publishes [of registry_answers 77 ConnectionError example_env example_world]
    by_id_fetches_then_publishes [of registry_answers 76 ValueError example_env example_world]
    by_id_fetches_then_publishes [of registry_answers 75 _ example_env example_world version_2 "[''atmelavr'']"]
  show ?thesis
    by blast
qed

section \<open>Clone failures that are raised again\<close>

text \<open>
  The other clone failures are raised again as they are: a \<^verbatim>\<open>GitCommandError\<close> with no
  standard error, and one whose standard error has a line break and does not end in
  the branch-not-found message.
\<close>

lemma length_py_split:
  "length (py_split c cur s) = Suc (length (filter (\<lambda>x. x = c) s))"
  by (induction s arbitrary: cur) simp_all

lemma penultimate_of_lines:
  assumes "c \<in> set s"
  shows "\<exists>line. penultimate (py_split c [] s) = Inr line"
proof -
  from assms have "filter (\<lambda>x. x = c) s \<noteq> []"
    by (auto simp: filter_empty_conv)
  then have "2 \<le> length (py_split c [] s)"
    by (cases "filter (\<lambda>x. x = c) s") (simp_all add: length_py_split)
  then show ?thesis
    by (simp add: penultimate_def)
qed

lemma git_error_raised_again:
  assumes failed: "clone_from e url to branch True 1 w = (Inl (GitCommandError stderr), w')"
      and other: "stderr = None \<or> stderr = Some [] \<or>
                  (\<exists>s line. stderr = Some s \<and>
                     penultimate (py_split CHR ''\<newline>'' [] s) = Inr line \<and>
                     line \<noteq> ''fatal: Remote branch '' @ branch @ '' not found in upstream origin'')"
  shows "shallow_clone_branch e branch to url w = (Inl (GitCommandError stderr), w')"
  unfolding shallow_clone_branch_def failed
  using other by (auto simp: Let_def)

section \<open>Preservation\<close>

lemma preservesI:
  "(\<And>w r w'. I w \<Longrightarrow> m w = (r, w') \<Longrightarrow> I w') \<Longrightarrow> preserves I m"
  by (simp add: preserves_def)

lemma preservesD:
  "preserves I m \<Longrightarrow> I w \<Longrightarrow> m w = (r, w') \<Longrightarrow> I w'"
  by (auto simp: preserves_def)

lemma preserves_bind:
  assumes "preserves I m" and "\<And>x. preserves I (f x)"
  shows "preserves I (bind_io m f)"
proof (rule preservesI)
  fix w r w'
  assume I: "I w" and run: "bind_io m f w = (r, w')"
  from run show "I w'"
  proof (cases rule: bind_ioE)
    case (err exc)
    with assms(1) I show ?thesis by (auto dest: preservesD)
  next
    case (ok x w1)
    with assms I show ?thesis by (blast dest: preservesD)
  qed
qed

lemma preserves_return: "preserves I (return x)"
  by (simp add: preserves_def return_def)

lemma preserves_raise: "preserves I (raise exc)"
  by (simp add: preserves_def raise_def)

lemma preserves_lift: "preserves I (lift r)"
  by (cases r) (simp_all add: lift_def preserves_return preserves_raise)

lemma preserves_if:
  "preserves I m \<Longrightarrow> preserves I n \<Longrightarrow> preserves I (if b then m else n)"
  by simp

lemma preserves_except_RemoteBranchNotFound:
  assumes "preserves I m" and "preserves I h"
  shows "preserves I (except_RemoteBranchNotFound m h)"
proof (rule preservesI)
  fix w r w'
  assume I: "I w" and run: "except_RemoteBranchNotFound m h w = (r, w')"
  obtain r1 w1 where m: "m w = (r1, w1)" by (cases "m w")
  with assms(1) I have I1: "I w1" by (blast dest: preservesD)
  show "I w'"
  proof (cases "\<exists>b. r1 = Inl (RemoteBranchNotFound b)")
    case True
    with run m have "h w1 = (r, w')"
      by (auto simp: except_RemoteBranchNotFound_def)
    with assms(2) I1 show ?thesis by (blast dest: preservesD)
  next
    case False
    with run m have "w' = w1"
      by (auto simp: except_RemoteBranchNotFound_def split: sum.splits error.splits)
    with I1 show ?thesis by simp
  qed
qed

section \<open>What stays outside the checkout\<close>

lemma confined_trace [simp]: "confined d w0 (w\<lparr>trace := t\<rparr>) = confined d w0 w"
  by (simp add: confined_def)

lemma confined_remote [simp]: "confined d w0 (w\<lparr>remote := r\<rparr>) = confined d w0 w"
  by (simp add: confined_def)

lemma confined_cwd [simp]: "confined d w0 (w\<lparr>cwd := c\<rparr>) = confined d w0 w"
  by (simp add: confined_def)

lemma confined_update:
  "confined d w0 w \<Longrightarrow> s \<noteq> [] \<Longrightarrow> confined d w0 (w\<lparr>fs := AList.update (d @ s) v (fs w)\<rparr>)"
  by (auto simp: confined_def is_dir_def lookup_update)

lemma confined_remove_tree:
  "confined d w0 w \<Longrightarrow> s \<noteq> [] \<Longrightarrow> confined d w0 (w\<lparr>fs := remove_tree (d @ s) (fs w)\<rparr>)"
  by (auto simp: confined_def is_dir_def lookup_remove_tree prefix_def)

lemma confined_append_entry:
  "confined d w0 w \<Longrightarrow> confined d w0 (w\<lparr>fs := fs w @ [(d @ s, n)]\<rparr>)"
  by (auto simp: confined_def is_dir_def lookup_append_entry split: option.splits)

lemma confined_checkout_tree:
  "confined d w0 w \<Longrightarrow> confined d w0 (w\<lparr>fs := checkout_tree d t (fs w)\<rparr>)"
  by (simp add: confined_def is_dir_def lookup_checkout_root lookup_checkout_outside)

lemma resolve_Abs [simp]: "resolve w (Abs cs) = cs"
  by (simp add: resolve_def)

lemma resolve_Rel [simp]: "resolve w (Rel cs) = cwd w @ cs"
  by (simp add: resolve_def)

lemma preserves_emit_confined: "preserves (confined d w0) (emit ev)"
  by (auto simp: preserves_def emit_def)

lemma preserves_emit_in_checkout: "preserves (in_checkout d w0) (emit ev)"
  by (auto simp: preserves_def emit_def in_checkout_def)

lemma preserves_exists: "preserves I (exists p)"
  by (auto simp: preserves_def exists_def)

lemma preserves_read_file: "preserves I (read_file p)"
  by (auto simp: preserves_def read_file_def split: option.splits node.splits)

lemma preserves_load: "preserves I (load c)"
  by (cases c) (simp_all add: load_def preserves_return preserves_raise)

lemma preserves_listdir: "preserves I (listdir p)"
  by (auto simp: preserves_def listdir_def split: if_splits)

lemma preserves_write_file_Abs:
  "s \<noteq> [] \<Longrightarrow> preserves (in_checkout d w0) (write_file (Abs (d @ s)) c)"
  by (auto simp: preserves_def write_file_def Let_def in_checkout_def confined_update
           split: if_splits)

lemma preserves_write_file_Rel:
  "s \<noteq> [] \<Longrightarrow> preserves (in_checkout d w0) (write_file (Rel s) c)"
  by (auto simp: preserves_def write_file_def Let_def in_checkout_def confined_update
           split: if_splits)

lemma preserves_rmtree_Rel:
  "s \<noteq> [] \<Longrightarrow> preserves (in_checkout d w0) (rmtree (Rel s))"
  by (auto simp: preserves_def rmtree_def Let_def in_checkout_def confined_remove_tree
           split: if_splits)

lemma preserves_mkdir_Rel:
  "preserves (in_checkout d w0) (mkdir (Rel s))"
  by (auto simp: preserves_def mkdir_def Let_def in_checkout_def confined_append_entry
           split: if_splits)

lemma preserves_copyfile_Rel:
  "s \<noteq> [] \<Longrightarrow> preserves (in_checkout d w0) (copyfile src (Rel s))"
  by (auto simp: preserves_def copyfile_def Let_def in_checkout_def confined_update
           split: if_splits option.splits node.splits)

section \<open>The stages preserve the confinement\<close>

lemma preserves_logger_info: "preserves (in_checkout d w0) (logger_info msg)"
  by (simp add: logger_info_def preserves_emit_in_checkout)

lemma preserves_version_already_staged:
  "preserves (in_checkout d w0) (version_already_staged version force p)"
  unfolding version_already_staged_def
  by (intro preserves_bind preserves_if preserves_exists preserves_read_file preserves_load
        preserves_logger_info preserves_return)

lemma preserves_copy_examples:
  "preserves (in_checkout d w0) (copy_examples saved (Rel [''examples'']) names acc)"
proof (induction names arbitrary: acc)
  case Nil
  show ?case by (simp add: preserves_return)
next
  case (Cons n names)
  show ?case
    by (simp add: Let_def) (intro preserves_bind preserves_copyfile_Rel Cons.IH, simp)
qed

lemma preserves_stage_examples:
  "preserves (in_checkout d w0) (stage_examples e lib_id)"
  unfolding stage_examples_def Let_def
  by (intro preserves_bind preserves_if preserves_exists preserves_rmtree_Rel
        preserves_mkdir_Rel preserves_return preserves_listdir preserves_copy_examples) simp

lemma preserves_write_travis_config:
  "preserves (in_checkout d w0) (write_travis_config lib_id version platforms example_files)"
  unfolding write_travis_config_def TRAVIS_FILENAME_def
  by (intro preserves_bind preserves_write_file_Rel preserves_lift) simp_all

lemma preserves_index_add_loop:
  "preserves I (index_add_loop repo paths)"
proof (induction paths arbitrary: repo)
  case Nil
  show ?case by (simp add: preserves_return)
next
  case (Cons p paths)
  show ?case
    by simp (intro preserves_bind preserves_lift preserves_read_file Cons.IH)
qed

lemma preserves_index_add:
  "preserves (in_checkout d w0) (index_add repo paths)"
  unfolding index_add_def
  by (intro preserves_bind preserves_index_add_loop preserves_emit_in_checkout preserves_return)

lemma preserves_index_commit:
  "preserves (in_checkout d w0) (index_commit repo message)"
  unfolding index_commit_def
  by (intro preserves_bind preserves_emit_in_checkout preserves_return)

lemma preserves_remote_push:
  "preserves (in_checkout d w0) (remote_push e repo branch)"
  by (auto simp: preserves_def remote_push_def raise_def emit_def in_checkout_def
           split: option.splits if_splits)

lemma preserves_make_commit:
  "preserves (in_checkout d w0) (make_commit e repo version branch_name example_files)"
  unfolding make_commit_def
  by (intro preserves_bind preserves_index_add preserves_lift preserves_index_commit
        preserves_remote_push)

lemma preserves_after_chdir:
  "preserves (in_checkout d w0)
     (bind_io (version_already_staged version force (Abs (d @ [''_version.json'']))) (\<lambda>skip.
        if skip then return ()
        else
          bind_io (write_file (Abs (d @ [''_version.json''])) (Json version)) (\<lambda>u.
          bind_io (stage_examples e lib_id) (\<lambda>example_files.
          bind_io (write_travis_config lib_id version platforms example_files) (\<lambda>u.
            make_commit e repo version branch_name example_files)))))"
  by (intro preserves_bind preserves_if preserves_return preserves_version_already_staged
        preserves_write_file_Abs preserves_stage_examples preserves_write_travis_config
        preserves_make_commit) simp

section \<open>Resolving the branch\<close>

lemma clone_from_confined:
  assumes "clone_from e url (Abs d) branch single_branch depth w = (r, w')"
      and "confined d w0 w"
  shows "confined d w0 w'" and "\<And>repo. r = Inr repo \<Longrightarrow> working_tree_dir repo = d"
  using assms
  by (auto simp: clone_from_def Let_def confined_def is_dir_def lookup_checkout_root
           lookup_checkout_outside split: option.splits)

lemma shallow_clone_branch_confined:
  assumes "shallow_clone_branch e branch (Abs d) url w = (r, w')"
      and "confined d w0 w"
  shows "confined d w0 w'" and "\<And>repo. r = Inr repo \<Longrightarrow> working_tree_dir repo = d"
proof -
  obtain r1 w1 where c: "clone_from e url (Abs d) branch True 1 w = (r1, w1)"
    by (cases "clone_from e url (Abs d) branch True 1 w")
  from assms(1) c have w': "w' = w1"
    by (auto simp: shallow_clone_branch_def Let_def
             split: sum.splits error.splits option.splits if_splits)
  from clone_from_confined(1) [OF c assms(2)] w' show "confined d w0 w'"
    by simp
  fix repo assume "r = Inr repo"
  with assms(1) c have "r1 = Inr repo"
    by (auto simp: shallow_clone_branch_def Let_def
             split: sum.splits error.splits option.splits if_splits)
  with clone_from_confined(2) [OF c assms(2)] show "working_tree_dir repo = d"
    by simp
qed

lemma git_checkout_orphan_result:
  assumes "git_checkout_orphan repo branch w = (r, w')"
  shows "fs w' = fs w" and "cwd w' = cwd w" and "remote w' = remote w"
    and "\<And>repo'. r = Inr repo' \<Longrightarrow> working_tree_dir repo' = working_tree_dir repo"
  using assms
  by (auto simp: git_checkout_orphan_def raise_def bind_io_def emit_def return_def
           split: if_splits)

lemma resolve_branch_confined:
  assumes "resolve_branch e branch_name (Abs d) w = (r, w')"
      and "confined d w0 w"
  shows "confined d w0 w'" and "\<And>repo. r = Inr repo \<Longrightarrow> working_tree_dir repo = d"
proof -
  let ?first = "bind_io (logger_debug (''Cloning branch '' @ branch_name)) (\<lambda>u.
          shallow_clone_branch e branch_name (Abs d) (LIBBUILD_REPO_URI e))"
  let ?second = "bind_io (logger_debug ''Branch not found. Making one.'') (\<lambda>u.
        bind_io (shallow_clone_branch e ''master'' (Abs d) (LIBBUILD_REPO_URI e)) (\<lambda>repo.
          git_checkout_orphan repo branch_name))"
  have first: "confined d w0 w1 \<and> (\<forall>repo. r1 = Inr repo \<longrightarrow> working_tree_dir repo = d)"
    if "?first v = (r1, w1)" and "confined d w0 v" for v r1 w1
    using that shallow_clone_branch_confined [of e branch_name d "LIBBUILD_REPO_URI e" _ r1 w1 w0]
    by (auto simp: bind_io_def logger_debug_def emit_def)
  have second: "confined d w0 w1 \<and> (\<forall>repo. r1 = Inr repo \<longrightarrow> working_tree_dir repo = d)"
    if run: "?second v = (r1, w1)" and c: "confined d w0 v" for v r1 w1
  proof -
    let ?v = "v\<lparr>trace := trace v @ [LogDebug ''Branch not found. Making one.'']\<rparr>"
    from run have run': "bind_io (shallow_clone_branch e ''master'' (Abs d) (LIBBUILD_REPO_URI e))
        (\<lambda>repo. git_checkout_orphan repo branch_name) ?v = (r1, w1)"
      by (simp add: bind_io_def logger_debug_def emit_def)
    from c have c': "confined d w0 ?v" by simp
    from run' show ?thesis
    proof (cases rule: bind_ioE)
      case (err exc)
      with shallow_clone_branch_confined(1) [OF _ c'] show ?thesis by auto
    next
      case (ok repo w2)
      from shallow_clone_branch_confined [OF ok(1) c']
      have c2: "confined d w0 w2" and wt: "working_tree_dir repo = d" by auto
      from git_checkout_orphan_result [OF ok(2)] c2 wt show ?thesis
        by (auto simp: confined_def)
    qed
  qed
  obtain r1 w1 where f: "?first w = (r1, w1)" by (cases "?first w")
  from first [OF f assms(2)]
  have c1: "confined d w0 w1" and wt1: "\<And>repo. r1 = Inr repo \<Longrightarrow> working_tree_dir repo = d"
    by auto
  have both: "confined d w0 w' \<and> (\<forall>repo. r = Inr repo \<longrightarrow> working_tree_dir repo = d)"
  proof (cases "\<exists>b. r1 = Inl (RemoteBranchNotFound b)")
    case True
    with assms(1) f have "?second w1 = (r, w')"
      by (auto simp: resolve_branch_def except_RemoteBranchNotFound_def)
    from second [OF this c1] show ?thesis .
  next
    case False
    with assms(1) f have "r = r1" and "w' = w1"
      by (auto simp: resolve_branch_def except_RemoteBranchNotFound_def
               split: sum.splits error.splits)
    with c1 wt1 show ?thesis by simp
  qed
  from both show "confined d w0 w'" by simp
  fix repo assume "r = Inr repo"
  with both show "working_tree_dir repo = d" by simp
qed

section \<open>The body of the publisher\<close>

lemma publish_body_confined:
  assumes run: "publish_body e lib_id version platforms force branch_name (Abs d) w = (r, w')"
      and c: "confined d w0 w"
  shows "confined d w0 w'"
proof -
  from run [unfolded publish_body_def] show ?thesis
  proof (cases rule: bind_ioE)
    case (err exc)
    from resolve_branch_confined(1) [OF err(1) c] show ?thesis .
  next
    case (ok repo w1)
    from resolve_branch_confined [OF ok(1) c]
    have c1: "confined d w0 w1" and wt: "working_tree_dir repo = d" by auto
    from ok(2) show ?thesis
    proof (cases rule: bind_ioE)
      case (err exc)
      with c1 show ?thesis by (auto simp: logger_info_def emit_def)
    next
      case (ok u w2)
      with c1 have c2: "confined d w0 w2" by (auto simp: logger_info_def emit_def)
      from ok(2) show ?thesis
      proof (cases rule: bind_ioE)
        case (err exc)
        with c2 show ?thesis by (auto simp: chdir_def split: if_splits)
      next
        case (ok u' w3)
        with c2 wt have i3: "in_checkout d w0 w3"
          by (auto simp: chdir_def in_checkout_def split: if_splits)
        from ok(2) wt have "in_checkout d w0 w'"
          using preservesD [OF preserves_after_chdir i3]
          by (simp add: Let_def VERSION_FILENAME_def)
        then show ?thesis by (simp add: in_checkout_def)
      qed
    qed
  qed
qed

section \<open>What a run adds to the trace\<close>

lemma emitsI:
  "(\<And>w r w'. m w = (r, w') \<Longrightarrow> \<exists>evs. trace w' = trace w @ evs \<and> list_all P evs) \<Longrightarrow> emits P m"
  by (simp add: emits_def)

lemma emitsD:
  "emits P m \<Longrightarrow> m w = (r, w') \<Longrightarrow> \<exists>evs. trace w' = trace w @ evs \<and> list_all P evs"
  by (auto simp: emits_def)

lemma emits_bind:
  assumes "emits P m" and "\<And>x. emits P (f x)"
  shows "emits P (bind_io m f)"
proof (rule emitsI)
  fix w r w'
  assume "bind_io m f w = (r, w')"
  then show "\<exists>evs. trace w' = trace w @ evs \<and> list_all P evs"
  proof (cases rule: bind_ioE)
    case (err exc)
    with assms(1) show ?thesis by (auto dest: emitsD)
  next
    case (ok x w1)
    from emitsD [OF assms(1) ok(1)] obtain evs1 where
      e1: "trace w1 = trace w @ evs1" "list_all P evs1" by auto
    from emitsD [OF assms(2) ok(2)] obtain evs2 where
      e2: "trace w' = trace w1 @ evs2" "list_all P evs2" by auto
    from e1 e2 have "trace w' = trace w @ (evs1 @ evs2) \<and> list_all P (evs1 @ evs2)"
      by simp
    then show ?thesis by blast
  qed
qed

lemma emits_silent:
  "(\<And>w r w'. m w = (r, w') \<Longrightarrow> trace w' = trace w) \<Longrightarrow> emits P m"
  by (rule emitsI) auto

lemma emits_return: "emits P (return x)"
  by (rule emits_silent) (simp add: return_def)

lemma emits_raise: "emits P (raise exc)"
  by (rule emits_silent) (simp add: raise_def)

lemma emits_lift: "emits P (lift r)"
  by (cases r) (simp_all add: lift_def emits_return emits_raise)

lemma emits_if: "emits P m \<Longrightarrow> emits P n \<Longrightarrow> emits P (if b then m else n)"
  by simp

lemma emits_emit: "P ev \<Longrightarrow> emits P (emit ev)"
  by (rule emitsI) (auto simp: emit_def)

lemma emits_exists: "emits P (exists p)"
  by (rule emits_silent) (auto simp: exists_def)

lemma emits_read_file: "emits P (read_file p)"
  by (rule emits_silent) (auto simp: read_file_def split: option.splits node.splits)

lemma emits_load: "emits P (load c)"
  by (cases c) (simp_all add: load_def emits_return emits_raise)

lemma emits_listdir: "emits P (listdir p)"
  by (rule emits_silent) (auto simp: listdir_def split: if_splits)

lemma emits_chdir: "emits P (chdir p)"
  by (rule emits_silent) (auto simp: chdir_def split: if_splits)

lemma emits_getcwd: "emits P getcwd"
  by (rule emits_silent) (auto simp: getcwd_def split: if_splits)

lemma emits_write_file: "(\<And>q. P (WroteFile q)) \<Longrightarrow> emits P (write_file p c)"
  by (rule emitsI) (auto simp: write_file_def Let_def split: if_splits)

lemma emits_rmtree: "(\<And>q. P (RemovedTree q)) \<Longrightarrow> emits P (rmtree p)"
  by (rule emitsI) (auto simp: rmtree_def Let_def split: if_splits)

lemma emits_mkdir: "(\<And>q. P (MadeDir q)) \<Longrightarrow> emits P (mkdir p)"
  by (rule emitsI) (auto simp: mkdir_def Let_def split: if_splits)

lemma emits_copyfile: "(\<And>s q. P (CopiedFile s q)) \<Longrightarrow> emits P (copyfile src dst)"
  by (rule emitsI)
     (auto simp: copyfile_def Let_def split: if_splits option.splits node.splits)

lemma emits_clone_from:
  "(\<And>u q b s n. P (CloneAttempt u q b s n)) \<Longrightarrow> emits P (clone_from e url to branch sb depth)"
  by (rule emitsI) (auto simp: clone_from_def Let_def split: option.splits)

lemma emits_shallow_clone_branch:
  assumes "\<And>u q b s n. P (CloneAttempt u q b s n)"
  shows "emits P (shallow_clone_branch e branch to url)"
proof (rule emitsI)
  fix w r w'
  assume run: "shallow_clone_branch e branch to url w = (r, w')"
  obtain r1 w1 where c: "clone_from e url to branch True 1 w = (r1, w1)"
    by (cases "clone_from e url to branch True 1 w")
  from run c have "w' = w1"
    by (auto simp: shallow_clone_branch_def Let_def
             split: sum.splits error.splits option.splits if_splits)
  with emitsD [OF emits_clone_from c, of P] assms
  show "\<exists>evs. trace w' = trace w @ evs \<and> list_all P evs"
    by simp
qed

lemma emits_git_checkout_orphan:
  "(\<And>b. P (CheckedOutOrphan b)) \<Longrightarrow> emits P (git_checkout_orphan repo branch)"
  unfolding git_checkout_orphan_def
  by (intro emits_if emits_raise emits_bind emits_emit emits_return)

lemma emits_except_RemoteBranchNotFound:
  assumes "emits P m" and "emits P h"
  shows "emits P (except_RemoteBranchNotFound m h)"
proof (rule emitsI)
  fix w r w'
  assume run: "except_RemoteBranchNotFound m h w = (r, w')"
  obtain r1 w1 where m: "m w = (r1, w1)" by (cases "m w")
  from emitsD [OF assms(1) m] obtain evs1 where
    e1: "trace w1 = trace w @ evs1" "list_all P evs1" by auto
  show "\<exists>evs. trace w' = trace w @ evs \<and> list_all P evs"
  proof (cases "\<exists>b. r1 = Inl (RemoteBranchNotFound b)")
    case True
    with run m have "h w1 = (r, w')"
      by (auto simp: except_RemoteBranchNotFound_def)
    from emitsD [OF assms(2) this] obtain evs2 where
      e2: "trace w' = trace w1 @ evs2" "list_all P evs2" by auto
    from e1 e2 have "trace w' = trace w @ (evs1 @ evs2) \<and> list_all P (evs1 @ evs2)"
      by simp
    then show ?thesis by blast
  next
    case False
    with run m have "w' = w1"
      by (auto simp: except_RemoteBranchNotFound_def split: sum.splits error.splits)
    with e1 show ?thesis by auto
  qed
qed

lemma emits_index_add_loop: "emits P (index_add_loop repo paths)"
proof (induction paths arbitrary: repo)
  case Nil
  show ?case by (simp add: emits_return)
next
  case (Cons p paths)
  show ?case
    by simp (intro emits_bind emits_lift emits_read_file Cons.IH)
qed

lemma emits_copy_examples:
  "(\<And>s q. P (CopiedFile s q)) \<Longrightarrow> emits P (copy_examples saved ed names acc)"
proof (induction names arbitrary: acc)
  case Nil
  show ?case by (simp add: emits_return)
next
  case (Cons n names)
  show ?case
    by (simp add: Let_def) (intro emits_bind emits_copyfile Cons)
qed

lemma emits_logger_debug: "(\<And>s. P (LogDebug s)) \<Longrightarrow> emits P (logger_debug msg)"
  by (simp add: logger_debug_def emits_emit)

lemma emits_logger_info: "(\<And>s. P (LogInfo s)) \<Longrightarrow> emits P (logger_info msg)"
  by (simp add: logger_info_def emits_emit)

lemma emits_resolve_branch:
  assumes "\<And>s. P (LogDebug s)" and "\<And>u q b s n. P (CloneAttempt u q b s n)"
      and "\<And>b. P (CheckedOutOrphan b)"
  shows "emits P (resolve_branch e branch_name repo_directory)"
  unfolding resolve_branch_def
  by (intro emits_except_RemoteBranchNotFound emits_bind emits_logger_debug
        emits_shallow_clone_branch emits_git_checkout_orphan assms)

lemma emits_version_already_staged:
  assumes "\<And>s. P (LogInfo s)"
  shows "emits P (version_already_staged version force p)"
  unfolding version_already_staged_def
  by (intro emits_bind emits_if emits_exists emits_read_file emits_load emits_logger_info
        emits_return assms)

lemma emits_stage_examples:
  assumes "\<And>q. P (RemovedTree q)" and "\<And>q. P (MadeDir q)" and "\<And>s q. P (CopiedFile s q)"
  shows "emits P (stage_examples e lib_id)"
  unfolding stage_examples_def Let_def
  by (intro emits_bind emits_if emits_exists emits_rmtree emits_mkdir emits_return
        emits_listdir emits_copy_examples assms)

lemma emits_write_travis_config:
  assumes "\<And>q. P (WroteFile q)"
  shows "emits P (write_travis_config lib_id version platforms example_files)"
  unfolding write_travis_config_def
  by (intro emits_bind emits_write_file emits_lift assms)

lemma emits_index_add:
  assumes "\<And>ps. P (IndexAdded ps)"
  shows "emits P (index_add repo paths)"
  unfolding index_add_def
  by (intro emits_bind emits_index_add_loop emits_emit emits_return assms)

lemma emits_index_commit:
  assumes "\<And>m. P (Committed m)"
  shows "emits P (index_commit repo message)"
  unfolding index_commit_def
  by (intro emits_bind emits_emit emits_return assms)

lemma emits_remote_push:
  assumes "\<And>b. P (Pushed b)" and "\<And>b. P (PushRejected b)"
  shows "emits P (remote_push e repo branch)"
  by (rule emitsI)
     (auto simp: remote_push_def raise_def emit_def assms split: option.splits if_splits)

lemma emits_make_commit:
  "emits (\<lambda>ev. True) (make_commit e repo version branch_name example_files)"
  unfolding make_commit_def
  by (intro emits_bind emits_index_add emits_lift emits_index_commit emits_remote_push) simp_all

lemma emits_publish_body:
  "emits (\<lambda>ev. True) (publish_body e lib_id version platforms force branch_name repo_directory)"
  unfolding publish_body_def Let_def
  by (intro emits_bind emits_if emits_return emits_resolve_branch emits_logger_info emits_chdir
        emits_version_already_staged emits_write_file emits_stage_examples
        emits_write_travis_config emits_make_commit) simp_all

lemma publish_body_trace:
  "publish_body e lib_id version platforms force branch_name repo_directory w = (r, w') \<Longrightarrow>
   \<exists>evs. trace w' = trace w @ evs"
  using emitsD [OF emits_publish_body] by blast

section \<open>The whole call\<close>

lemma fresh_not_prefix:
  "fresh f d \<Longrightarrow> lookup f c = Some n \<Longrightarrow> \<not> prefix d c"
  using fresh_lookup by fastforce

lemma mkdtemp_run:
  assumes "is_dir (fs w) (tempdir e)" and "fresh (fs w) (checkout_dir e lib_id)"
  shows "mkdtemp e (''pioapi-libbuild-'' @ str_nat lib_id @ ''-'') w =
           (Inr (Abs (checkout_dir e lib_id)),
            w\<lparr>fs := fs w @ [(checkout_dir e lib_id, Dir)],
              trace := trace w @ [MadeDir (checkout_dir e lib_id)]\<rparr>)"
  using assms by (simp add: mkdtemp_def checkout_dir_def Let_def)

lemma confined_after_mkdtemp:
  assumes "fresh (fs w) d"
  shows "confined d w (w\<lparr>fs := fs w @ [(d, Dir)], trace := t\<rparr>)"
proof -
  from assms have "lookup (fs w) d = None"
    by (simp add: fresh_lookup)
  then show ?thesis
    by (auto simp: confined_def is_dir_def lookup_append_entry split: option.splits)
qed

text \<open>
  What a call that got its temporary directory returns: the outcome of the body decides
  only whether an exception is logged.
\<close>

lemma think_of_name_later_run:
  assumes cwd_ok: "is_dir (fs w) (cwd w)"
      and tmp_ok: "is_dir (fs w) (tempdir e)"
      and free: "fresh (fs w) (checkout_dir e lib_id)"
      and body: "publish_body e lib_id version platforms force (''library-'' @ str_nat lib_id)
                   (Abs (checkout_dir e lib_id))
                   (w\<lparr>fs := fs w @ [(checkout_dir e lib_id, Dir)],
                      trace := trace w @ [MadeDir (checkout_dir e lib_id)]\<rparr>) = (r, w2)"
  shows "think_of_name_later e lib_id version platforms force w =
           (Inr (),
            w2\<lparr>cwd := cwd w,
               fs := remove_tree (checkout_dir e lib_id) (fs w2),
               trace := trace w2 @ (case r of Inl exc \<Rightarrow> [LogException exc] | Inr u \<Rightarrow> []) @
                        [RemovedTree (checkout_dir e lib_id)]\<rparr>)"
proof -
  let ?d = "checkout_dir e lib_id"
  let ?w1 = "w\<lparr>fs := fs w @ [(?d, Dir)], trace := trace w @ [MadeDir ?d]\<rparr>"
  have c1: "confined ?d w ?w1"
    using free by (rule confined_after_mkdtemp)
  from publish_body_confined [OF body c1] have c2: "confined ?d w w2" .
  from cwd_ok free have out: "\<not> prefix ?d (cwd w)"
    by (auto simp: is_dir_def dest: fresh_not_prefix)
  with c2 cwd_ok have home: "is_dir (fs w2) (cwd w)"
    by (simp add: confined_def is_dir_def)
  from c2 have there: "is_dir (fs w2) ?d"
    by (simp add: confined_def)
  have guarded: "except_Exception
          (publish_body e lib_id version platforms force (''library-'' @ str_nat lib_id) (Abs ?d))
          (\<lambda>exc. logger_exception exc) ?w1 =
        (Inr (), w2\<lparr>trace := trace w2 @ (case r of Inl exc \<Rightarrow> [LogException exc] | Inr u \<Rightarrow> [])\<rparr>)"
    using body
    by (cases r) (simp_all add: except_Exception_def logger_exception_def emit_def)
  have cleanup: "bind_io (chdir (Abs (cwd w))) (\<lambda>u. rmtree (Abs ?d)) (w2\<lparr>trace := t\<rparr>) =
        (Inr (), w2\<lparr>cwd := cwd w, fs := remove_tree ?d (fs w2), trace := t @ [RemovedTree ?d]\<rparr>)"
    for t
    using home there
    by (simp add: bind_io_def chdir_def rmtree_def Let_def)
  from cwd_ok have g: "getcwd w = (Inr (Abs (cwd w)), w)"
    by (simp add: getcwd_def)
  show ?thesis
    apply (simp only: think_of_name_later_def Let_def bind_io_Inr [of getcwd w, OF g])
    apply (simp only: bind_io_Inr [of "mkdtemp e (''pioapi-libbuild-'' @ str_nat lib_id @ ''-'')" w,
                        OF mkdtemp_run [OF tmp_ok free]])
    apply (simp only: try_finally_def guarded prod.case cleanup sum.case append_assoc)
    done
qed

lemma example_world_ready:
  "is_dir (fs example_world) (cwd example_world)"
  "is_dir (fs example_world) (tempdir example_env)"
  "fresh (fs example_world) (checkout_dir example_env 75)"
  "is_dir (fs example_world) (tempdir unreachable_env)"
  "fresh (fs example_world) (checkout_dir unreachable_env 75)"
  by (simp_all add: example_world_def example_env_def unreachable_env_def is_dir_def lookup_def
        fresh_def checkout_dir_def str_nat.simps)

section \<open>Failures inside the publisher\<close>

text \<open>
  C3. Once the publisher has its working directory and its temporary directory, it
  returns normally whatever happens in the body of its \<^verbatim>\<open>try\<close>: an exception of the
  body is logged and not raised again.
\<close>

theorem publish_swallows_every_failure:
  assumes "is_dir (fs w) (cwd w)"
      and "is_dir (fs w) (tempdir e)"
      and "fresh (fs w) (checkout_dir e lib_id)"
  shows "fst (think_of_name_later e lib_id version platforms force w) = Inr ()
     \<and> (\<forall>exc w2.
          publish_body e lib_id version platforms force (''library-'' @ str_nat lib_id)
            (Abs (checkout_dir e lib_id))
            (w\<lparr>fs := fs w @ [(checkout_dir e lib_id, Dir)],
               trace := trace w @ [MadeDir (checkout_dir e lib_id)]\<rparr>) = (Inl exc, w2) \<longrightarrow>
          LogException exc \<in>
            set (new_events w (snd (think_of_name_later e lib_id version platforms force w))))"
proof -
  let ?d = "checkout_dir e lib_id"
  let ?w1 = "w\<lparr>fs := fs w @ [(?d, Dir)], trace := trace w @ [MadeDir ?d]\<rparr>"
  let ?body = "publish_body e lib_id version platforms force (''library-'' @ str_nat lib_id) (Abs ?d)"
  obtain r w2 where body: "?body ?w1 = (r, w2)"
    by (cases "?body ?w1")
  note run = think_of_name_later_run [OF assms body]
  from run have returns: "fst (think_of_name_later e lib_id version platforms force w) = Inr ()"
    by simp
  have logged: "LogException exc \<in>
        set (new_events w (snd (think_of_name_later e lib_id version platforms force w)))"
    if failed: "?body ?w1 = (Inl exc, w2')" for exc w2'
  proof -
    from failed body have r: "r = Inl exc" by simp
    from publish_body_trace [OF body] obtain evs where "trace w2 = trace ?w1 @ evs" ..
    with run r show ?thesis
      by (simp add: new_events_def)
  qed
  from returns logged show ?thesis
    by blast
qed

theorem publish_swallows_every_failure_witness:
  "is_dir (fs example_world) (cwd example_world)
   \<and> is_dir (fs example_world) (tempdir unreachable_env)
   \<and> fresh (fs example_world) (checkout_dir unreachable_env 75)
   \<and> fst (publish_body unreachable_env 75 version_2 [''atmelavr''] False (''library-'' @ str_nat 75)
            (Abs (checkout_dir unreachable_env 75))
            (example_world\<lparr>fs := fs example_world @ [(checkout_dir unreachable_env 75, Dir)],
               trace := trace example_world @ [MadeDir (checkout_dir unreachable_env 75)]\<rparr>)) =
       Inl IndexError
   \<and> fst (think_of_name_later unreachable_env 75 version_2 [''atmelavr''] False example_world) = Inr ()
   \<and> LogException IndexError \<in>
       set (new_events example_world
             (snd (think_of_name_later unreachable_env 75 version_2 [''atmelavr''] False example_world)))"
proof -
  let ?w1 = "example_world\<lparr>fs := fs example_world @ [(checkout_dir unreachable_env 75, Dir)],
               trace := trace example_world @ [MadeDir (checkout_dir unreachable_env 75)]\<rparr>"
  let ?body = "publish_body unreachable_env 75 version_2 [''atmelavr''] False (''library-'' @ str_nat 75)
            (Abs (checkout_dir unreachable_env 75))"
  have failed: "fst (?body ?w1) = Inl IndexError"
    by (simp add: publish_body_def resolve_branch_def except_RemoteBranchNotFound_def bind_io_def
          logger_debug_def emit_def shallow_clone_branch_def clone_from_def Let_def
          unreachable_env_def example_env_def penultimate_def)
  then have "?body ?w1 = (Inl IndexError, snd (?body ?w1))"
    by (metis prod.collapse)
  with publish_swallows_every_failure
         [OF example_world_ready(1) example_world_ready(4) example_world_ready(5),
          of version_2 "[''atmelavr'']" False]
       example_world_ready failed
  show ?thesis
    by blast
qed

section \<open>Cleaning up\<close>

text \<open>
  C4. The same call leaves the working directory of the process as it found it and no
  temporary checkout directory behind, whether the body returned, skipped or raised;
  nothing outside the temporary directory has changed.
\<close>

theorem publish_cleans_up:
  assumes "is_dir (fs w) (cwd w)"
      and "is_dir (fs w) (tempdir e)"
      and "fresh (fs w) (checkout_dir e lib_id)"
  shows "fst (think_of_name_later e lib_id version platforms force w) = Inr ()
     \<and> cwd (snd (think_of_name_later e lib_id version platforms force w)) = cwd w
     \<and> fresh (fs (snd (think_of_name_later e lib_id version platforms force w))) (checkout_dir e lib_id)
     \<and> lookup (fs (snd (think_of_name_later e lib_id version platforms force w)))
         (checkout_dir e lib_id) = None
     \<and> (\<forall>x. \<not> prefix (checkout_dir e lib_id) x \<longrightarrow>
          lookup (fs (snd (think_of_name_later e lib_id version platforms force w))) x =
          lookup (fs w) x)"
proof -
  let ?d = "checkout_dir e lib_id"
  let ?w1 = "w\<lparr>fs := fs w @ [(?d, Dir)], trace := trace w @ [MadeDir ?d]\<rparr>"
  let ?body = "publish_body e lib_id version platforms force (''library-'' @ str_nat lib_id) (Abs ?d)"
  obtain r w2 where body: "?body ?w1 = (r, w2)"
    by (cases "?body ?w1")
  note run = think_of_name_later_run [OF assms body]
  have "confined ?d w ?w1"
    using assms(3) by (rule confined_after_mkdtemp)
  from publish_body_confined [OF body this]
  have outside: "\<And>x. \<not> prefix ?d x \<Longrightarrow> lookup (fs w2) x = lookup (fs w) x"
    by (simp add: confined_def)
  from run outside show ?thesis
    by (simp add: fresh_remove_tree lookup_remove_tree)
qed

theorem publish_cleans_up_witness:
  "is_dir (fs example_world) (cwd example_world)
   \<and> is_dir (fs example_world) (tempdir example_env)
   \<and> fresh (fs example_world) (checkout_dir example_env 75)
   \<and> fst (think_of_name_later example_env 75 version_2 [''atmelavr''] False example_world) = Inr ()
   \<and> cwd (snd (think_of_name_later example_env 75 version_2 [''atmelavr''] False example_world)) = [''home'']
   \<and> lookup (fs (snd (think_of_name_later example_env 75 version_2 [''atmelavr''] False example_world)))
       [''tmp'', ''pioapi-libbuild-75-aB3dE9''] = None
   \<and> lookup (fs (snd (think_of_name_later example_env 75 version_2 [''atmelavr''] False example_world)))
       [''srv'', ''examples'', ''75'', ''new.ino''] = Some (File (Text ''void setup(){}''))"
proof -
  have d: "checkout_dir example_env 75 = [''tmp'', ''pioapi-libbuild-75-aB3dE9'']"
    by (simp add: checkout_dir_def example_env_def str_nat.simps)
  have out: "\<not> prefix (checkout_dir example_env 75) [''srv'', ''examples'', ''75'', ''new.ino'']"
    by (simp add: d)
  have kept: "lookup (fs example_world) [''srv'', ''examples'', ''75'', ''new.ino''] =
      Some (File (Text ''void setup(){}''))"
    by (simp add: example_world_def lookup_def)
  have home: "cwd example_world = [''home'']"
    by (simp add: example_world_def)
  from publish_cleans_up [OF example_world_ready(1) example_world_ready(2) example_world_ready(3),
         of version_2 "[''atmelavr'']" False]
       example_world_ready out kept home d
  show ?thesis
    by (metis (no_types, lifting))
qed

section \<open>Listing a directory\<close>

lemma lookup_None_iff: "lookup f q = None \<longleftrightarrow> q \<notin> fst ` set f"
  by (simp add: lookup_def map_of_eq_None_iff)

lemma in_children: "n \<in> set (children f p) \<longleftrightarrow> lookup f (p @ [n]) \<noteq> None"
proof
  assume "n \<in> set (children f p)"
  then obtain q v where e: "(q, v) \<in> set f" and q: "q \<noteq> []" "butlast q = p" "last q = n"
    by (auto simp: children_def)
  from q have "q = p @ [n]"
    by (metis append_butlast_last_id)
  with e have "p @ [n] \<in> fst ` set f"
    by force
  then show "lookup f (p @ [n]) \<noteq> None"
    by (simp add: lookup_None_iff)
next
  assume "lookup f (p @ [n]) \<noteq> None"
  then obtain v where "(p @ [n], v) \<in> set f"
    by (auto simp: lookup_None_iff)
  then have "(p @ [n], v) \<in> {x \<in> set f. case x of (q, n) \<Rightarrow> q \<noteq> [] \<and> butlast q = p}"
    by simp
  then have "(\<lambda>(q, n). last q) (p @ [n], v) \<in>
      (\<lambda>(q, n). last q) ` {x \<in> set f. case x of (q, n) \<Rightarrow> q \<noteq> [] \<and> butlast q = p}"
    by (rule imageI)
  then show "n \<in> set (children f p)"
    by (simp add: children_def)
qed

lemma children_remove_tree:
  assumes "\<And>n. \<not> prefix p (s @ [n])"
  shows "children (remove_tree p f) s = children f s"
proof -
  have "filter (\<lambda>(q, n). q \<noteq> [] \<and> butlast q = s) (filter (\<lambda>(q, n). \<not> prefix p q) f) =
        filter (\<lambda>(q, n). q \<noteq> [] \<and> butlast q = s) f"
  proof (induction f)
    case Nil
    show ?case by simp
  next
    case (Cons x f)
    obtain q v where x: "x = (q, v)" by (cases x)
    have "\<not> prefix p q" if "q \<noteq> []" "butlast q = s"
      using that assms [of "last q"] by (metis append_butlast_last_id)
    with Cons x show ?case by auto
  qed
  then show ?thesis
    by (simp add: children_def remove_tree_def)
qed

lemma children_append_entry:
  "q = [] \<or> butlast q \<noteq> s \<Longrightarrow> children (f @ [(q, v)]) s = children f s"
  by (auto simp: children_def)

lemma resolve_join_name:
  "resolve w (join p (Rel [n])) = resolve w p @ [n]"
  by (cases p) simp_all

lemma not_prefix_examples:
  assumes "\<not> prefix c s"
  shows "\<not> prefix (c @ [x]) (s @ [n])"
proof
  assume "prefix (c @ [x]) (s @ [n])"
  then have "prefix (c @ [x]) s \<or> c @ [x] = s @ [n]"
    by (auto simp: prefix_snoc)
  then show False
  proof
    assume "prefix (c @ [x]) s"
    then have "prefix c s"
      by (rule append_prefixD)
    with assms show False ..
  next
    assume "c @ [x] = s @ [n]"
    then have "c = s" by simp
    with assms show False by simp
  qed
qed

section \<open>Copying the examples\<close>

lemma copyfile_Inr:
  assumes "copyfile src dst w = (Inr u, w')"
  shows "\<exists>c. lookup (fs w) (resolve w src) = Some (File c) \<and>
             w' = w\<lparr>fs := AList.update (resolve w dst) (File c) (fs w),
                     trace := trace w @ [CopiedFile (resolve w src) (resolve w dst)]\<rparr>"
  using assms
  by (auto simp: copyfile_def Let_def split: if_splits option.splits node.splits)

lemma copy_examples_run:
  assumes "copy_examples saved (Rel [''examples'']) names acc w1 = (Inr files, w')"
      and "resolve w1 saved \<noteq> cwd w1 @ [''examples'']"
  shows "files = acc @ map (\<lambda>n. Rel [''examples'', n]) names
       \<and> cwd w' = cwd w1
       \<and> trace w' = trace w1 @
           map (\<lambda>n. CopiedFile (resolve w1 saved @ [n]) (cwd w1 @ [''examples'', n])) names
       \<and> (\<forall>n \<in> set names. \<exists>c. lookup (fs w1) (resolve w1 saved @ [n]) = Some (File c))
       \<and> (\<forall>x. lookup (fs w') x =
             (if x \<in> (\<lambda>n. cwd w1 @ [''examples'', n]) ` set names
              then lookup (fs w1) (resolve w1 saved @ [last x])
              else lookup (fs w1) x))"
  using assms
proof (induction names arbitrary: acc w1)
  case Nil
  then show ?case by (simp add: return_def)
next
  case (Cons n names)
  let ?S = "resolve w1 saved"
  let ?E = "cwd w1 @ [''examples'']"
  from Cons.prems(1) obtain u wa where
    copied: "copyfile (join saved (Rel [n])) (Rel [''examples'', n]) w1 = (Inr u, wa)" and
    rest: "copy_examples saved (Rel [''examples'']) names (acc @ [Rel [''examples'', n]]) wa =
             (Inr files, w')"
    by (auto simp: Let_def elim: bind_io_InrE)
  from copyfile_Inr [OF copied] obtain c where
    src: "lookup (fs w1) (?S @ [n]) = Some (File c)" and
    wa: "wa = w1\<lparr>fs := AList.update (cwd w1 @ [''examples'', n]) (File c) (fs w1),
                  trace := trace w1 @ [CopiedFile (?S @ [n]) (cwd w1 @ [''examples'', n])]\<rparr>"
    by (auto simp: resolve_join_name)
  from wa have cwd_a: "cwd wa = cwd w1" by simp
  then have S_a: "resolve wa saved = ?S" by (rule resolve_cwd)
  from Cons.prems(2) cwd_a S_a have "resolve wa saved \<noteq> cwd wa @ [''examples'']"
    by simp
  from Cons.IH [OF rest this] cwd_a S_a have
    files: "files = (acc @ [Rel [''examples'', n]]) @ map (\<lambda>n. Rel [''examples'', n]) names" and
    cwd': "cwd w' = cwd w1" and
    trace': "trace w' = trace wa @
           map (\<lambda>n. CopiedFile (?S @ [n]) (cwd w1 @ [''examples'', n])) names" and
    read: "\<forall>m \<in> set names. \<exists>c. lookup (fs wa) (?S @ [m]) = Some (File c)" and
    look: "\<forall>x. lookup (fs w') x =
             (if x \<in> (\<lambda>n. cwd w1 @ [''examples'', n]) ` set names
              then lookup (fs wa) (?S @ [last x])
              else lookup (fs wa) x)"
    by simp_all
  have other: "?S @ [m] \<noteq> cwd w1 @ [''examples'', n]" for m
    using Cons.prems(2) by auto
  have look_a: "lookup (fs wa) x =
      (if x = cwd w1 @ [''examples'', n] then Some (File c) else lookup (fs w1) x)" for x
    by (simp add: wa lookup_update)
  have source_a: "lookup (fs wa) (?S @ [m]) = lookup (fs w1) (?S @ [m])" for m
    by (simp only: look_a [of "?S @ [m]"] other [of m] if_False)
  have "\<forall>x. lookup (fs w') x =
             (if x \<in> (\<lambda>n. cwd w1 @ [''examples'', n]) ` set (n # names)
              then lookup (fs w1) (?S @ [last x])
              else lookup (fs w1) x)"
  proof
    fix x
    show "lookup (fs w') x =
             (if x \<in> (\<lambda>n. cwd w1 @ [''examples'', n]) ` set (n # names)
              then lookup (fs w1) (?S @ [last x])
              else lookup (fs w1) x)"
    proof (cases "x \<in> (\<lambda>n. cwd w1 @ [''examples'', n]) ` set names")
      case True
      with look source_a show ?thesis by auto
    next
      case False
      with look look_a src show ?thesis by auto
    qed
  qed
  moreover from read source_a src
  have "\<forall>m \<in> set (n # names). \<exists>c. lookup (fs w1) (?S @ [m]) = Some (File c)"
    by auto
  moreover from trace' wa
  have "trace w' = trace w1 @
           map (\<lambda>n. CopiedFile (?S @ [n]) (cwd w1 @ [''examples'', n])) (n # names)"
    by simp
  ultimately show ?case
    using files cwd' by simp
qed

section \<open>Staging the examples\<close>

lemma mkdir_Inr:
  assumes "mkdir p w = (Inr u, w')"
  shows "fresh (fs w) (resolve w p)"
    and "w' = w\<lparr>fs := fs w @ [(resolve w p, Dir)], trace := trace w @ [MadeDir (resolve w p)]\<rparr>"
  using assms by (auto simp: mkdir_def Let_def split: if_splits)

lemma listdir_Inr:
  assumes "listdir p w = (Inr names, w')"
  shows "names = children (fs w) (resolve w p)" and "w' = w"
  using assms by (auto simp: listdir_def split: if_splits)

text \<open>Lines 124 to 126: afterwards the directory is there and empty.\<close>

lemma clear_examples_run:
  assumes cleared: "bind_io (exists (Rel [''examples''])) (\<lambda>present.
             bind_io (if present then rmtree (Rel [''examples'']) else return ()) (\<lambda>u.
               mkdir (Rel [''examples'']))) w = (Inr u, w1)"
  shows "cwd w1 = cwd w"
    and "trace w1 = trace w @
           (if lookup (fs w) (cwd w @ [''examples'']) \<noteq> None
            then [RemovedTree (cwd w @ [''examples''])] else []) @
           [MadeDir (cwd w @ [''examples''])]"
    and "\<And>x. lookup (fs w1) x =
           (if x = cwd w @ [''examples''] then Some Dir
            else if prefix (cwd w @ [''examples'']) x then None
            else lookup (fs w) x)"
    and "\<And>s. s \<noteq> cwd w \<Longrightarrow> (\<And>n. \<not> prefix (cwd w @ [''examples'']) (s @ [n])) \<Longrightarrow>
           children (fs w1) s = children (fs w) s"
proof -
  let ?E = "cwd w @ [''examples'']"
  from cleared obtain u' wb where
    removed: "(if lookup (fs w) ?E \<noteq> None then rmtree (Rel [''examples'']) else return ()) w =
                (Inr u', wb)" and
    made: "mkdir (Rel [''examples'']) wb = (Inr u, w1)"
    by (auto simp: exists_def bind_io_def split: prod.splits sum.splits)
  have wb: "cwd wb = cwd w
      \<and> trace wb = trace w @ (if lookup (fs w) ?E \<noteq> None then [RemovedTree ?E] else [])
      \<and> fs wb = (if lookup (fs w) ?E \<noteq> None then remove_tree ?E (fs w) else fs w)"
    using removed
    by (auto simp: rmtree_def return_def Let_def split: if_splits)
  from mkdir_Inr [OF made] wb have
    free: "fresh (fs wb) ?E" and
    w1: "w1 = wb\<lparr>fs := fs wb @ [(?E, Dir)], trace := trace wb @ [MadeDir ?E]\<rparr>"
    by simp_all
  from w1 wb show "cwd w1 = cwd w" by simp
  from w1 wb show "trace w1 = trace w @
           (if lookup (fs w) ?E \<noteq> None then [RemovedTree ?E] else []) @ [MadeDir ?E]"
    by simp
  have below: "lookup (fs wb) x = None" if "prefix ?E x" for x
    using free that by (rule fresh_lookup)
  have outside: "lookup (fs wb) x = lookup (fs w) x" if "\<not> prefix ?E x" for x
    using wb that by (simp add: lookup_remove_tree)
  show "lookup (fs w1) x =
           (if x = ?E then Some Dir else if prefix ?E x then None else lookup (fs w) x)" for x
  proof (cases "prefix ?E x")
    case True
    with below [of x] show ?thesis
      by (simp add: w1 lookup_append_entry)
  next
    case False
    then have "x \<noteq> ?E" by auto
    with False outside [of x] show ?thesis
      by (simp add: w1 lookup_append_entry split: option.splits)
  qed
  show "children (fs w1) s = children (fs w) s"
    if s: "s \<noteq> cwd w" and out: "\<And>n. \<not> prefix ?E (s @ [n])" for s
  proof -
    have "children (fs w1) s = children (fs wb) s"
      using s by (simp add: w1 children_append_entry)
    also have "\<dots> = children (fs w) s"
      using wb out by (simp add: children_remove_tree)
    finally show ?thesis .
  qed
qed

text \<open>
  Staging the examples (which every publish past the gate does) removes
  \<^verbatim>\<open>examples/\<close> of the working tree if it is there, makes it anew, and copies each
  entry of the library's example directory into it under the same name, in the order of
  the listing. Afterwards \<^verbatim>\<open>examples/\<close> of the working tree holds exactly the names
  of the source directory, each with the content of its source, and nothing else is
  below it. The source directory lies outside the working directory, which is the
  checkout.
\<close>

lemma stage_examples_replaces_working_tree:
  assumes run: "stage_examples e lib_id w = (Inr example_files, w')"
      and outside: "\<not> prefix (cwd w) (resolve w (get_libexample_dir e lib_id))"
  shows "example_files =
           map (\<lambda>n. Rel [''examples'', n]) (children (fs w) (resolve w (get_libexample_dir e lib_id)))
     \<and> new_events w w' =
           (if lookup (fs w) (cwd w @ [''examples'']) \<noteq> None
            then [RemovedTree (cwd w @ [''examples''])] else []) @
           [MadeDir (cwd w @ [''examples''])] @
           map (\<lambda>n. CopiedFile (resolve w (get_libexample_dir e lib_id) @ [n])
                               (cwd w @ [''examples'', n]))
               (children (fs w) (resolve w (get_libexample_dir e lib_id)))
     \<and> is_dir (fs w') (cwd w @ [''examples''])
     \<and> set (children (fs w') (cwd w @ [''examples''])) =
         set (children (fs w) (resolve w (get_libexample_dir e lib_id)))
     \<and> (\<forall>n \<in> set (children (fs w) (resolve w (get_libexample_dir e lib_id))).
          \<exists>c. lookup (fs w) (resolve w (get_libexample_dir e lib_id) @ [n]) = Some (File c)
             \<and> lookup (fs w') (cwd w @ [''examples'', n]) = Some (File c))
     \<and> (\<forall>x. strict_prefix (cwd w @ [''examples'']) x \<longrightarrow> lookup (fs w') x \<noteq> None \<longrightarrow>
          x \<in> (\<lambda>n. cwd w @ [''examples'', n]) `
                set (children (fs w) (resolve w (get_libexample_dir e lib_id))))"
proof -
  let ?E = "cwd w @ [''examples'']"
  let ?saved = "get_libexample_dir e lib_id"
  let ?S = "resolve w ?saved"
  let ?names = "children (fs w) ?S"
  from run obtain u w1 where
    cleared: "bind_io (exists (Rel [''examples''])) (\<lambda>present.
             bind_io (if present then rmtree (Rel [''examples'']) else return ()) (\<lambda>u.
               mkdir (Rel [''examples'']))) w = (Inr u, w1)" and
    copied: "bind_io (listdir ?saved) (\<lambda>names.
               copy_examples ?saved (Rel [''examples'']) names []) w1 = (Inr example_files, w')"
    by (auto simp: stage_examples_def Let_def bind_io_def split: prod.splits sum.splits)
  note c = clear_examples_run [OF cleared]
  from c(1) have S1: "resolve w1 ?saved = ?S" by (rule resolve_cwd)
  from outside have S_not_cwd: "?S \<noteq> cwd w" by auto
  from outside have S_not_E: "?S \<noteq> ?E" by (auto simp: prefix_def)
  have src_out: "\<not> prefix ?E (?S @ [n])" for n
    using outside by (rule not_prefix_examples)
  have src_not_E: "?S @ [n] \<noteq> ?E" for n
    using S_not_cwd by auto
  from copied obtain names where
    listed: "listdir ?saved w1 = (Inr names, w1)" and
    loop: "copy_examples ?saved (Rel [''examples'']) names [] w1 = (Inr example_files, w')"
    by (auto elim!: bind_io_InrE dest: listdir_Inr(2))
  from listdir_Inr(1) [OF listed] S1 c(4) [OF S_not_cwd src_out]
  have names: "names = ?names" by simp
  from S1 c(1) S_not_E have "resolve w1 ?saved \<noteq> cwd w1 @ [''examples'']" by simp
  from copy_examples_run [OF loop this] S1 c(1) names have
    files: "example_files = map (\<lambda>n. Rel [''examples'', n]) ?names" and
    trace': "trace w' = trace w1 @ map (\<lambda>n. CopiedFile (?S @ [n]) (cwd w @ [''examples'', n])) ?names" and
    read: "\<forall>n \<in> set ?names. \<exists>c. lookup (fs w1) (?S @ [n]) = Some (File c)" and
    look: "\<forall>x. lookup (fs w') x =
             (if x \<in> (\<lambda>n. cwd w @ [''examples'', n]) ` set ?names
              then lookup (fs w1) (?S @ [last x])
              else lookup (fs w1) x)"
    by simp_all
  have src1: "lookup (fs w1) (?S @ [n]) = lookup (fs w) (?S @ [n])" for n
    by (simp only: c(3) [of "?S @ [n]"] src_out [of n] src_not_E [of n] if_False)
  have events: "new_events w w' =
           (if lookup (fs w) ?E \<noteq> None then [RemovedTree ?E] else []) @ [MadeDir ?E] @
           map (\<lambda>n. CopiedFile (?S @ [n]) (cwd w @ [''examples'', n])) ?names"
    by (simp add: new_events_def trace' c(2))
  have E_not_copy: "?E \<notin> (\<lambda>n. cwd w @ [''examples'', n]) ` set ?names"
    by auto
  have dir: "is_dir (fs w') ?E"
    using look E_not_copy by (simp add: is_dir_def c(3))
  have copy: "\<exists>c. lookup (fs w) (?S @ [n]) = Some (File c)
             \<and> lookup (fs w') (cwd w @ [''examples'', n]) = Some (File c)"
    if n: "n \<in> set ?names" for n
  proof -
    from read n src1 obtain c where s: "lookup (fs w) (?S @ [n]) = Some (File c)"
      by auto
    from n have "cwd w @ [''examples'', n] \<in> (\<lambda>n. cwd w @ [''examples'', n]) ` set ?names"
      by (rule imageI)
    with look have "lookup (fs w') (cwd w @ [''examples'', n]) = lookup (fs w1) (?S @ [n])"
      by simp
    with s src1 show ?thesis by simp
  qed
  have stale: "x \<in> (\<lambda>n. cwd w @ [''examples'', n]) ` set ?names"
    if below: "strict_prefix ?E x" and there: "lookup (fs w') x \<noteq> None" for x
  proof (rule ccontr)
    assume "x \<notin> (\<lambda>n. cwd w @ [''examples'', n]) ` set ?names"
    with look have "lookup (fs w') x = lookup (fs w1) x" by simp
    also from below have "\<dots> = None"
      by (auto simp: c(3) strict_prefix_def)
    finally show False using there by simp
  qed
  have listing: "set (children (fs w') ?E) = set ?names"
  proof (rule set_eqI)
    fix n
    show "n \<in> set (children (fs w') ?E) \<longleftrightarrow> n \<in> set ?names"
    proof
      assume "n \<in> set (children (fs w') ?E)"
      then have "lookup (fs w') (?E @ [n]) \<noteq> None"
        by (simp add: in_children)
      moreover have "strict_prefix ?E (?E @ [n])"
        by (auto simp: strict_prefix_def prefix_def)
      ultimately have "?E @ [n] \<in> (\<lambda>n. cwd w @ [''examples'', n]) ` set ?names"
        by (rule stale [rotated])
      then show "n \<in> set ?names" by auto
    next
      assume "n \<in> set ?names"
      from copy [OF this] show "n \<in> set (children (fs w') ?E)"
        by (auto simp: in_children)
    qed
  qed
  from files events dir listing copy stale show ?thesis
    by blast
qed

lemma stage_examples_example:
  "fst (stage_examples example_env 75 checkout_world) = Inr [Rel [''examples'', ''new.ino'']]"
  by (simp add: stage_examples_def Let_def bind_io_def exists_def rmtree_def mkdir_def
        listdir_def copyfile_def return_def resolve_def checkout_world_def example_env_def
        lookup_def is_dir_def parent_is_dir_def fresh_def remove_tree_def children_def
        str_nat.simps)

lemma stage_examples_replaces_working_tree_example:
  "fst (stage_examples example_env 75 checkout_world) = Inr [Rel [''examples'', ''new.ino'']]
   \<and> \<not> prefix (cwd checkout_world) (resolve checkout_world (get_libexample_dir example_env 75))
   \<and> lookup (fs checkout_world) [''tmp'', ''co'', ''examples'', ''old.ino''] =
       Some (File (Text ''void loop(){}''))
   \<and> set (children (fs (snd (stage_examples example_env 75 checkout_world)))
            [''tmp'', ''co'', ''examples'']) = {''new.ino''}
   \<and> lookup (fs (snd (stage_examples example_env 75 checkout_world)))
       [''tmp'', ''co'', ''examples'', ''new.ino''] = Some (File (Text ''void setup(){}''))
   \<and> lookup (fs (snd (stage_examples example_env 75 checkout_world)))
       [''tmp'', ''co'', ''examples'', ''old.ino''] = None"
proof -
  let ?w' = "snd (stage_examples example_env 75 checkout_world)"
  have run: "stage_examples example_env 75 checkout_world = (Inr [Rel [''examples'', ''new.ino'']], ?w')"
    using stage_examples_example by (metis prod.collapse)
  have S: "resolve checkout_world (get_libexample_dir example_env 75) = [''srv'', ''examples'', ''75'']"
    by (simp add: example_env_def str_nat.simps)
  have c: "cwd checkout_world = [''tmp'', ''co'']"
    by (simp add: checkout_world_def)
  have out: "\<not> prefix (cwd checkout_world) (resolve checkout_world (get_libexample_dir example_env 75))"
    by (simp add: S c)
  have names: "children (fs checkout_world) [''srv'', ''examples'', ''75''] = [''new.ino'']"
    by (simp add: children_def checkout_world_def)
  have src: "lookup (fs checkout_world) [''srv'', ''examples'', ''75'', ''new.ino''] =
      Some (File (Text ''void setup(){}''))"
    by (simp add: lookup_def checkout_world_def)
  have old: "lookup (fs checkout_world) [''tmp'', ''co'', ''examples'', ''old.ino''] =
      Some (File (Text ''void loop(){}''))"
    by (simp add: lookup_def checkout_world_def)
  note t = stage_examples_replaces_working_tree [OF run out, unfolded S c names]
  from t have listing: "set (children (fs ?w') [''tmp'', ''co'', ''examples'']) = {''new.ino''}"
    by simp
  from t src have new: "lookup (fs ?w') [''tmp'', ''co'', ''examples'', ''new.ino''] =
      Some (File (Text ''void setup(){}''))"
    by simp
  from t have "\<forall>x. strict_prefix [''tmp'', ''co'', ''examples''] x \<longrightarrow> lookup (fs ?w') x \<noteq> None \<longrightarrow>
      x \<in> (\<lambda>n. [''tmp'', ''co'', ''examples'', n]) ` set [''new.ino'']"
    by simp
  then have "strict_prefix [''tmp'', ''co'', ''examples''] [''tmp'', ''co'', ''examples'', ''old.ino''] \<longrightarrow>
      lookup (fs ?w') [''tmp'', ''co'', ''examples'', ''old.ino''] \<noteq> None \<longrightarrow>
      [''tmp'', ''co'', ''examples'', ''old.ino''] \<in> (\<lambda>n. [''tmp'', ''co'', ''examples'', n]) ` set [''new.ino'']"
    by (rule spec)
  then have gone: "lookup (fs ?w') [''tmp'', ''co'', ''examples'', ''old.ino''] = None"
    by (simp add: strict_prefix_def)
  from stage_examples_example out old listing new gone show ?thesis
    by simp
qed

section \<open>The examples of the published branch\<close>

text \<open>
  C6. What is published is the index, and line 149 only adds to it: the index of the
  clone holds the examples of the earlier publish, removing them from the working tree
  takes nothing out of it, and the commit that is pushed still has them. Library 75,
  whose branch holds \<^verbatim>\<open>examples/old.ino\<close> and whose example directory holds only
  \<^verbatim>\<open>new.ino\<close>, is published at version 2.0.0; the call logs no exception, the remote
  takes the push, and the branch then holds both \<^verbatim>\<open>examples/old.ino\<close> and
  \<^verbatim>\<open>examples/new.ino\<close>.
\<close>

theorem stale_example_in_published_branch:
  "examples_of (published example_world ''library-75'') =
     [([''examples'', ''old.ino''], Text ''void loop(){}'')]
   \<and> children (fs example_world) [''srv'', ''examples'', ''75''] = [''new.ino'']
   \<and> new_events example_world
       (snd (think_of_name_later example_env 75 version_2 [''atmelavr''] False example_world)) =
     [MadeDir [''tmp'', ''pioapi-libbuild-75-aB3dE9''],
      LogDebug ''Cloning branch library-75'',
      CloneAttempt ''git@host:libs.git'' [''tmp'', ''pioapi-libbuild-75-aB3dE9''] ''library-75'' True 1,
      LogInfo ''Cloned into /tmp/pioapi-libbuild-75-aB3dE9'',
      WroteFile [''tmp'', ''pioapi-libbuild-75-aB3dE9'', ''_version.json''],
      RemovedTree [''tmp'', ''pioapi-libbuild-75-aB3dE9'', ''examples''],
      MadeDir [''tmp'', ''pioapi-libbuild-75-aB3dE9'', ''examples''],
      CopiedFile [''srv'', ''examples'', ''75'', ''new.ino'']
        [''tmp'', ''pioapi-libbuild-75-aB3dE9'', ''examples'', ''new.ino''],
      WroteFile [''tmp'', ''pioapi-libbuild-75-aB3dE9'', ''.travis.yml''],
      WroteFile [''tmp'', ''pioapi-libbuild-75-aB3dE9'', ''.travis.yml''],
      IndexAdded [Rel [''examples'', ''new.ino''], Rel [''_version.json''], Rel [''.travis.yml'']],
      Committed ''Update library to version 2.0.0'',
      Pushed ''library-75'',
      RemovedTree [''tmp'', ''pioapi-libbuild-75-aB3dE9'']]
   \<and> map_of (published
               (snd (think_of_name_later example_env 75 version_2 [''atmelavr''] False example_world))
               ''library-75'') [''_version.json''] = Some (Json version_2)
   \<and> examples_of
       (published
          (snd (think_of_name_later example_env 75 version_2 [''atmelavr''] False example_world))
          ''library-75'') =
     [([''examples'', ''old.ino''], Text ''void loop(){}''),
      ([''examples'', ''new.ino''], Text ''void setup(){}'')]"
  by code_simp

section \<open>The body as staging followed by the commit\<close>





section \<open>Staging: what it emits and what it leaves\<close>














section \<open>The commit\<close>









section \<open>The check of the staged version\<close>

lemma new_events_append:
  "trace w' = trace w @ evs \<Longrightarrow> new_events w w' = evs"
  by (simp add: new_events_def)







section \<open>Publishing the same version again\<close>










section \<open>Resolving the branch\<close>

lemma clone_from_trace:
  assumes "clone_from e url to branch sb depth w = (r, w')"
  shows "trace w' = trace w @ [CloneAttempt url (resolve w to) branch sb depth]"
    and "remote w' = remote w" and "cwd w' = cwd w"
  using assms by (auto simp: clone_from_def Let_def split: option.splits)

lemma shallow_clone_branch_world:
  assumes run: "shallow_clone_branch e branch to url w = (r, w')"
      and clone: "clone_from e url to branch True 1 w = (r1, w1)"
  shows "w' = w1"
  using run unfolding shallow_clone_branch_def clone
  by (auto simp: Let_def split: sum.splits error.splits option.splits if_splits)

text \<open>
  What \<^verbatim>\<open>shallow_clone_branch\<close> makes of the outcome of the clone: the repository,
  \<^verbatim>\<open>RemoteBranchNotFound\<close> for an error that reports the missing branch, and any other
  error of the clone as it is.
\<close>

lemma shallow_clone_branch_cases:
  assumes clone: "clone_from e url to branch True 1 w = (r1, w1)"
  shows "r1 = Inr repo \<Longrightarrow> shallow_clone_branch e branch to url w = (Inr repo, w1)"
    and "r1 = Inl exc \<Longrightarrow> clone_error exc \<Longrightarrow> \<not> reports_branch_not_found branch exc \<Longrightarrow>
           shallow_clone_branch e branch to url w = (Inl exc, w1)"
    and "r1 = Inl exc \<Longrightarrow> reports_branch_not_found branch exc \<Longrightarrow>
           shallow_clone_branch e branch to url w = (Inl (RemoteBranchNotFound branch), w1)"
proof -
  show "shallow_clone_branch e branch to url w = (Inr repo, w1)" if "r1 = Inr repo"
    unfolding shallow_clone_branch_def clone using that by simp
  show "shallow_clone_branch e branch to url w = (Inl (RemoteBranchNotFound branch), w1)"
    if "r1 = Inl exc" and "reports_branch_not_found branch exc"
    unfolding shallow_clone_branch_def clone using that
    by (auto simp: reports_branch_not_found_def Let_def split: error.splits option.splits)
  show "shallow_clone_branch e branch to url w = (Inl exc, w1)"
    if r1: "r1 = Inl exc" and ce: "clone_error exc"
      and other: "\<not> reports_branch_not_found branch exc"
  proof (cases exc)
    case (GitCommandError stderr)
    show ?thesis
    proof (cases stderr)
      case None
      with GitCommandError r1 show ?thesis
        unfolding shallow_clone_branch_def clone by simp
    next
      case (Some s)
      show ?thesis
      proof (cases "s = []")
        case True
        with Some GitCommandError r1 show ?thesis
          unfolding shallow_clone_branch_def clone by simp
      next
        case False
        with ce Some GitCommandError have "CHR ''\<newline>'' \<in> set s"
          by (simp add: clone_error_def)
        from penultimate_of_lines [OF this] obtain line where
          line: "penultimate (py_split CHR ''\<newline>'' [] s) = Inr line" ..
        with other False Some GitCommandError have
          "line \<noteq> ''fatal: Remote branch '' @ branch @ '' not found in upstream origin''"
          by (simp add: reports_branch_not_found_def)
        with line False Some GitCommandError r1 show ?thesis
          unfolding shallow_clone_branch_def clone by (simp add: Let_def)
      qed
    qed
  qed (use r1 ce in \<open>simp_all add: shallow_clone_branch_def clone [unfolded One_nat_def]
                        clone_error_def\<close>)
qed

text \<open>
  A standard error without a line break is outside of this: line 69 takes the last but
  one of a single line and raises \<^verbatim>\<open>IndexError\<close>.
\<close>

lemma stderr_without_line_break:
  assumes clone: "clone_from e url to branch True 1 w = (Inl (GitCommandError (Some s)), w1)"
      and "s \<noteq> []" and "CHR ''\<newline>'' \<notin> set s"
  shows "shallow_clone_branch e branch to url w = (Inl IndexError, w1)"
proof -
  from assms(3) have "filter (\<lambda>x. x = CHR ''\<newline>'') s = []"
    by (auto simp: filter_empty_conv)
  then have "penultimate (py_split CHR ''\<newline>'' [] s) = Inl IndexError"
    by (simp add: penultimate_def length_py_split)
  with assms(2) show ?thesis
    unfolding shallow_clone_branch_def clone by (simp add: Let_def)
qed

lemma resolve_trace:
  "resolve (w\<lparr>trace := t\<rparr>) p = resolve w p"
  by (simp add: resolve_def split: path.splits)

lemma resolve_branch_unfold:
  "resolve_branch e b to w =
     (case shallow_clone_branch e b to (LIBBUILD_REPO_URI e)
             (w\<lparr>trace := trace w @ [LogDebug (''Cloning branch '' @ b)]\<rparr>) of
        (Inl (RemoteBranchNotFound x), w') \<Rightarrow>
          bind_io (shallow_clone_branch e ''master'' to (LIBBUILD_REPO_URI e))
            (\<lambda>repo. git_checkout_orphan repo b)
            (w'\<lparr>trace := trace w' @ [LogDebug ''Branch not found. Making one.'']\<rparr>)
      | (r, w') \<Rightarrow> (r, w'))"
  by (auto simp: resolve_branch_def except_RemoteBranchNotFound_def bind_io_def logger_debug_def
        emit_def split: prod.splits sum.splits error.splits)

lemma resolve_branch_first_events:
  assumes run: "resolve_branch e b to w = (r, w')"
  shows "\<exists>evs. trace w' = trace w @
           [LogDebug (''Cloning branch '' @ b),
            CloneAttempt (LIBBUILD_REPO_URI e) (resolve w to) b True 1] @ evs"
proof -
  let ?w0 = "w\<lparr>trace := trace w @ [LogDebug (''Cloning branch '' @ b)]\<rparr>"
  obtain r1 w1 where clone: "clone_from e (LIBBUILD_REPO_URI e) to b True 1 ?w0 = (r1, w1)"
    by (cases "clone_from e (LIBBUILD_REPO_URI e) to b True 1 ?w0")
  obtain r2 w2 where s: "shallow_clone_branch e b to (LIBBUILD_REPO_URI e) ?w0 = (r2, w2)"
    by (cases "shallow_clone_branch e b to (LIBBUILD_REPO_URI e) ?w0")
  from shallow_clone_branch_world [OF s clone] have w2: "w2 = w1" .
  from clone_from_trace(1) [OF clone] have
    t1: "trace w1 = trace w @ [LogDebug (''Cloning branch '' @ b),
           CloneAttempt (LIBBUILD_REPO_URI e) (resolve w to) b True 1]"
    by (simp add: resolve_trace)
  have handler: "emits (\<lambda>ev. True)
      (bind_io (shallow_clone_branch e ''master'' to (LIBBUILD_REPO_URI e))
         (\<lambda>repo. git_checkout_orphan repo b))"
    by (intro emits_bind emits_shallow_clone_branch emits_git_checkout_orphan) simp_all
  show ?thesis
  proof (cases "\<exists>x. r2 = Inl (RemoteBranchNotFound x)")
    case True
    then obtain x where "r2 = Inl (RemoteBranchNotFound x)" ..
    with run s w2 have
      "bind_io (shallow_clone_branch e ''master'' to (LIBBUILD_REPO_URI e))
         (\<lambda>repo. git_checkout_orphan repo b)
         (w1\<lparr>trace := trace w1 @ [LogDebug ''Branch not found. Making one.'']\<rparr>) = (r, w')"
      by (simp add: resolve_branch_unfold)
    from emitsD [OF handler this] t1 show ?thesis
      by auto
  next
    case False
    with run s w2 have "w' = w1"
      by (auto simp: resolve_branch_unfold split: sum.splits error.splits)
    with t1 show ?thesis
      by simp
  qed
qed

lemma bind_io_first_events:
  assumes "bind_io m f w = (r, w')"
      and "\<And>r1 w1. m w = (r1, w1) \<Longrightarrow> \<exists>evs. trace w1 = trace w @ pre @ evs"
      and "\<And>x. emits P (f x)"
  shows "\<exists>evs. trace w' = trace w @ pre @ evs"
  using assms(1)
proof (cases rule: bind_ioE)
  case (err exc)
  from assms(2) [OF err(1)] show ?thesis .
next
  case (ok x w1)
  from assms(2) [OF ok(1)] obtain evs1 where "trace w1 = trace w @ pre @ evs1" ..
  moreover from emitsD [OF assms(3) ok(2)] obtain evs2 where "trace w' = trace w1 @ evs2"
    by blast
  ultimately show ?thesis
    by simp
qed

lemma publish_body_first_events:
  assumes "publish_body e lib_id version platforms force branch_name to w = (r, w')"
  shows "\<exists>evs. trace w' = trace w @
           [LogDebug (''Cloning branch '' @ branch_name),
            CloneAttempt (LIBBUILD_REPO_URI e) (resolve w to) branch_name True 1] @ evs"
  apply (rule bind_io_first_events [OF assms [unfolded publish_body_def Let_def], where P = "\<lambda>ev. True"])
   apply (erule resolve_branch_first_events)
  apply (intro emits_bind emits_if emits_return emits_logger_info emits_chdir
        emits_version_already_staged emits_write_file emits_stage_examples
        emits_write_travis_config emits_make_commit)
                apply simp_all
  done

text \<open>The publisher resolves the branch \<^verbatim>\<open>library-<id>\<close> into its temporary directory.\<close>

lemma call_first_events:
  assumes "is_dir (fs w) (cwd w)"
      and "is_dir (fs w) (tempdir e)"
      and "fresh (fs w) (checkout_dir e lib_id)"
  shows "take 3 (new_events w (snd (think_of_name_later e lib_id version platforms force w))) =
           [MadeDir (checkout_dir e lib_id),
            LogDebug (''Cloning branch library-'' @ str_nat lib_id),
            CloneAttempt (LIBBUILD_REPO_URI e) (checkout_dir e lib_id)
              (''library-'' @ str_nat lib_id) True 1]"
proof -
  let ?d = "checkout_dir e lib_id"
  let ?w1 = "w\<lparr>fs := fs w @ [(?d, Dir)], trace := trace w @ [MadeDir ?d]\<rparr>"
  let ?body = "publish_body e lib_id version platforms force (''library-'' @ str_nat lib_id) (Abs ?d)"
  obtain r w2 where body: "?body ?w1 = (r, w2)"
    by (cases "?body ?w1")
  note run = think_of_name_later_run [OF assms body]
  from publish_body_first_events [OF body] obtain evs where
    "trace w2 = trace ?w1 @
       [LogDebug (''Cloning branch '' @ ''library-'' @ str_nat lib_id),
        CloneAttempt (LIBBUILD_REPO_URI e) (resolve ?w1 (Abs ?d)) (''library-'' @ str_nat lib_id)
          True 1] @ evs" ..
  with run show ?thesis
    by (simp add: new_events_def)
qed

text \<open>The recovery: a clone of \<^verbatim>\<open>master\<close>, then the new branch with no commit.\<close>

lemma orphan_off_master:
  assumes "clone_fault e ''master'' = None"
      and "map_of (remote w) ''master'' = Some t"
      and "branch_name \<noteq> ''master''"
  shows "bind_io (shallow_clone_branch e ''master'' to url)
           (\<lambda>repo. git_checkout_orphan repo branch_name) w =
         (Inr \<lparr>working_tree_dir = resolve w to, index = t, head_commit = None,
               active_branch = branch_name\<rparr>,
          w\<lparr>fs := checkout_tree (resolve w to) t (fs w),
            trace := trace w @ [CloneAttempt url (resolve w to) ''master'' True 1,
                                CheckedOutOrphan branch_name]\<rparr>)"
proof -
  let ?repo = "\<lparr>working_tree_dir = resolve w to, index = t, head_commit = Some t,
                active_branch = ''master''\<rparr>"
  let ?w1 = "w\<lparr>fs := checkout_tree (resolve w to) t (fs w),
               trace := trace w @ [CloneAttempt url (resolve w to) ''master'' True 1]\<rparr>"
  from assms(1,2) have "clone_from e url to ''master'' True 1 w = (Inr ?repo, ?w1)"
    by (simp add: clone_from_def Let_def)
  from shallow_clone_branch_cases(1) [OF this refl]
  have "shallow_clone_branch e ''master'' to url w = (Inr ?repo, ?w1)" .
  then show ?thesis
    using assms(3)
    by (simp add: bind_io_def git_checkout_orphan_def emit_def return_def)
qed

text \<open>
  C5. The publisher resolves the branch \<^verbatim>\<open>library-<id>\<close>: after making its temporary
  directory it logs and attempts one clone of that branch, single-branch and of depth 1.
  Resolving a branch returns the repository when that clone succeeds. When the clone
  fails with an error that reports the branch as not found on the remote, and only
  then, \<^verbatim>\<open>master\<close> is cloned in the same way and the branch is made as an orphan
  branch, one with no commit; any other error of the clone leaves
  \<^verbatim>\<open>resolve_branch\<close> as it was raised, with nothing more done. An error of the clone
  is one that \<^verbatim>\<open>Repo.clone_from\<close> raises: a \<^verbatim>\<open>GitCommandError\<close> whose standard
  error is empty or has a line break, or another exception.
\<close>

theorem resolve_branch_recovers_only_missing_branch:
  "(is_dir (fs w0) (cwd w0) \<longrightarrow> is_dir (fs w0) (tempdir e) \<longrightarrow>
    fresh (fs w0) (checkout_dir e lib_id) \<longrightarrow>
      take 3 (new_events w0 (snd (think_of_name_later e lib_id version platforms force w0))) =
        [MadeDir (checkout_dir e lib_id),
         LogDebug (''Cloning branch library-'' @ str_nat lib_id),
         CloneAttempt (LIBBUILD_REPO_URI e) (checkout_dir e lib_id)
           (''library-'' @ str_nat lib_id) True 1])
   \<and> (clone_from e (LIBBUILD_REPO_URI e) to branch_name True 1
         (w\<lparr>trace := trace w @ [LogDebug (''Cloning branch '' @ branch_name)]\<rparr>) = (r1, w1) \<longrightarrow>
       (\<forall>repo. r1 = Inr repo \<longrightarrow> resolve_branch e branch_name to w = (Inr repo, w1))
       \<and> (\<forall>exc. r1 = Inl exc \<longrightarrow> clone_error exc \<longrightarrow>
             \<not> reports_branch_not_found branch_name exc \<longrightarrow>
               resolve_branch e branch_name to w = (Inl exc, w1))
       \<and> (\<forall>exc. r1 = Inl exc \<longrightarrow> reports_branch_not_found branch_name exc \<longrightarrow>
             resolve_branch e branch_name to w =
               bind_io (shallow_clone_branch e ''master'' to (LIBBUILD_REPO_URI e))
                 (\<lambda>repo. git_checkout_orphan repo branch_name)
                 (w1\<lparr>trace := trace w1 @ [LogDebug ''Branch not found. Making one.'']\<rparr>)
             \<and> (clone_fault e ''master'' = None \<longrightarrow> map_of (remote w) ''master'' = Some t \<longrightarrow>
                branch_name \<noteq> ''master'' \<longrightarrow>
                  resolve_branch e branch_name to w =
                    (Inr \<lparr>working_tree_dir = resolve w to, index = t, head_commit = None,
                          active_branch = branch_name\<rparr>,
                     w\<lparr>fs := checkout_tree (resolve w to) t (fs w),
                       trace := trace w @
                         [LogDebug (''Cloning branch '' @ branch_name),
                          CloneAttempt (LIBBUILD_REPO_URI e) (resolve w to) branch_name True 1,
                          LogDebug ''Branch not found. Making one.'',
                          CloneAttempt (LIBBUILD_REPO_URI e) (resolve w to) ''master'' True 1,
                          CheckedOutOrphan branch_name]\<rparr>))))"
proof (intro conjI impI allI)
  assume "is_dir (fs w0) (cwd w0)" and "is_dir (fs w0) (tempdir e)"
    and "fresh (fs w0) (checkout_dir e lib_id)"
  then show "take 3 (new_events w0 (snd (think_of_name_later e lib_id version platforms force w0))) =
        [MadeDir (checkout_dir e lib_id),
         LogDebug (''Cloning branch library-'' @ str_nat lib_id),
         CloneAttempt (LIBBUILD_REPO_URI e) (checkout_dir e lib_id)
           (''library-'' @ str_nat lib_id) True 1]"
    by (rule call_first_events)
next
  let ?w = "w\<lparr>trace := trace w @ [LogDebug (''Cloning branch '' @ branch_name)]\<rparr>"
  fix repo
  assume clone: "clone_from e (LIBBUILD_REPO_URI e) to branch_name True 1 ?w = (r1, w1)"
    and r1: "r1 = Inr repo"
  from shallow_clone_branch_cases(1) [OF clone r1]
  show "resolve_branch e branch_name to w = (Inr repo, w1)"
    by (simp add: resolve_branch_unfold)
next
  let ?w = "w\<lparr>trace := trace w @ [LogDebug (''Cloning branch '' @ branch_name)]\<rparr>"
  fix exc
  assume clone: "clone_from e (LIBBUILD_REPO_URI e) to branch_name True 1 ?w = (r1, w1)"
    and r1: "r1 = Inl exc" and ce: "clone_error exc"
    and other: "\<not> reports_branch_not_found branch_name exc"
  from ce have "\<And>b. exc \<noteq> RemoteBranchNotFound b"
    by (auto simp: clone_error_def)
  with shallow_clone_branch_cases(2) [OF clone r1 ce other]
  show "resolve_branch e branch_name to w = (Inl exc, w1)"
    by (simp add: resolve_branch_unfold split: error.splits)
next
  let ?w = "w\<lparr>trace := trace w @ [LogDebug (''Cloning branch '' @ branch_name)]\<rparr>"
  fix exc
  assume clone: "clone_from e (LIBBUILD_REPO_URI e) to branch_name True 1 ?w = (r1, w1)"
    and r1: "r1 = Inl exc" and missing: "reports_branch_not_found branch_name exc"
  from shallow_clone_branch_cases(3) [OF clone r1 missing]
  show handler: "resolve_branch e branch_name to w =
      bind_io (shallow_clone_branch e ''master'' to (LIBBUILD_REPO_URI e))
        (\<lambda>repo. git_checkout_orphan repo branch_name)
        (w1\<lparr>trace := trace w1 @ [LogDebug ''Branch not found. Making one.'']\<rparr>)"
    by (simp add: resolve_branch_unfold)
  assume fault: "clone_fault e ''master'' = None"
    and master: "map_of (remote w) ''master'' = Some t"
    and differs: "branch_name \<noteq> ''master''"
  let ?w2 = "w1\<lparr>trace := trace w1 @ [LogDebug ''Branch not found. Making one.'']\<rparr>"
  from clone r1 have w1: "w1 = w\<lparr>trace := trace w @
      [LogDebug (''Cloning branch '' @ branch_name),
       CloneAttempt (LIBBUILD_REPO_URI e) (resolve w to) branch_name True 1]\<rparr>"
    by (auto simp: clone_from_def Let_def resolve_trace split: option.splits)
  from master w1 have "map_of (remote ?w2) ''master'' = Some t"
    by simp
  from orphan_off_master [OF fault this differs, of to "LIBBUILD_REPO_URI e"] handler w1
  show "resolve_branch e branch_name to w =
          (Inr \<lparr>working_tree_dir = resolve w to, index = t, head_commit = None,
                active_branch = branch_name\<rparr>,
           w\<lparr>fs := checkout_tree (resolve w to) t (fs w),
             trace := trace w @
               [LogDebug (''Cloning branch '' @ branch_name),
                CloneAttempt (LIBBUILD_REPO_URI e) (resolve w to) branch_name True 1,
                LogDebug ''Branch not found. Making one.'',
                CloneAttempt (LIBBUILD_REPO_URI e) (resolve w to) ''master'' True 1,
                CheckedOutOrphan branch_name]\<rparr>)"
    by (simp add: resolve_trace)
qed

theorem resolve_branch_recovers_only_missing_branch_witness:
  "is_dir (fs example_world) (cwd example_world)
   \<and> is_dir (fs example_world) (tempdir example_env)
   \<and> fresh (fs example_world) (checkout_dir example_env 75)
   \<and> take 3 (new_events example_world
              (snd (think_of_name_later example_env 75 version_2 [''atmelavr''] False example_world))) =
       [MadeDir (checkout_dir example_env 75),
        LogDebug (''Cloning branch library-'' @ str_nat 75),
        CloneAttempt (LIBBUILD_REPO_URI example_env) (checkout_dir example_env 75)
          (''library-'' @ str_nat 75) True 1]
   \<and> fst (clone_from example_env (LIBBUILD_REPO_URI example_env) (Abs [''tmp'', ''co'']) ''library-75'' True 1
              (example_world\<lparr>trace := trace example_world @
                 [LogDebug (''Cloning branch '' @ ''library-75'')]\<rparr>)) =
       Inr \<lparr>working_tree_dir = [''tmp'', ''co''], index = library_75_tree,
             head_commit = Some library_75_tree, active_branch = ''library-75''\<rparr>
   \<and> resolve_branch example_env ''library-75'' (Abs [''tmp'', ''co'']) example_world =
       (Inr \<lparr>working_tree_dir = [''tmp'', ''co''], index = library_75_tree,
             head_commit = Some library_75_tree, active_branch = ''library-75''\<rparr>,
        snd (clone_from example_env (LIBBUILD_REPO_URI example_env) (Abs [''tmp'', ''co'']) ''library-75'' True 1
              (example_world\<lparr>trace := trace example_world @
                 [LogDebug (''Cloning branch '' @ ''library-75'')]\<rparr>)))
   \<and> fst (clone_from offline_env (LIBBUILD_REPO_URI offline_env) (Abs [''tmp'', ''co'']) ''library-75'' True 1
              (example_world\<lparr>trace := trace example_world @
                 [LogDebug (''Cloning branch '' @ ''library-75'')]\<rparr>)) =
       Inl (GitCommandError (Some offline_stderr))
   \<and> clone_error (GitCommandError (Some offline_stderr))
   \<and> \<not> reports_branch_not_found ''library-75'' (GitCommandError (Some offline_stderr))
   \<and> resolve_branch offline_env ''library-75'' (Abs [''tmp'', ''co'']) example_world =
       (Inl (GitCommandError (Some offline_stderr)),
        snd (clone_from offline_env (LIBBUILD_REPO_URI offline_env) (Abs [''tmp'', ''co'']) ''library-75'' True 1
              (example_world\<lparr>trace := trace example_world @
                 [LogDebug (''Cloning branch '' @ ''library-75'')]\<rparr>)))
   \<and> fst (clone_from example_env (LIBBUILD_REPO_URI example_env) (Abs [''tmp'', ''co'']) ''library-76'' True 1
              (example_world\<lparr>trace := trace example_world @
                 [LogDebug (''Cloning branch '' @ ''library-76'')]\<rparr>)) =
       Inl (GitCommandError (Some (branch_not_found_stderr [''tmp'', ''co''] ''library-76'')))
   \<and> reports_branch_not_found ''library-76''
       (GitCommandError (Some (branch_not_found_stderr [''tmp'', ''co''] ''library-76'')))
   \<and> clone_fault example_env ''master'' = None
   \<and> map_of (remote example_world) ''master'' = Some [([''README''], Text ''libraries'')]
   \<and> ''library-76'' \<noteq> ''master''
   \<and> resolve_branch example_env ''library-76'' (Abs [''tmp'', ''co'']) example_world =
       (Inr \<lparr>working_tree_dir = resolve example_world (Abs [''tmp'', ''co'']), index = [([''README''], Text ''libraries'')],
             head_commit = None, active_branch = ''library-76''\<rparr>,
        example_world\<lparr>fs := checkout_tree (resolve example_world (Abs [''tmp'', ''co''])) [([''README''], Text ''libraries'')]
                               (fs example_world),
          trace := trace example_world @
            [LogDebug (''Cloning branch '' @ ''library-76''),
             CloneAttempt (LIBBUILD_REPO_URI example_env) (resolve example_world (Abs [''tmp'', ''co'']))
               ''library-76'' True 1,
             LogDebug ''Branch not found. Making one.'',
             CloneAttempt (LIBBUILD_REPO_URI example_env) (resolve example_world (Abs [''tmp'', ''co'']))
               ''master'' True 1,
             CheckedOutOrphan ''library-76'']\<rparr>)"
proof -
  have a_ok: "fst (clone_from example_env (LIBBUILD_REPO_URI example_env) (Abs [''tmp'', ''co'']) ''library-75'' True 1
              (example_world\<lparr>trace := trace example_world @
                 [LogDebug (''Cloning branch '' @ ''library-75'')]\<rparr>)) =
       Inr \<lparr>working_tree_dir = [''tmp'', ''co''], index = library_75_tree,
             head_commit = Some library_75_tree, active_branch = ''library-75''\<rparr>"
    by code_simp
  have a_off: "fst (clone_from offline_env (LIBBUILD_REPO_URI offline_env) (Abs [''tmp'', ''co'']) ''library-75'' True 1
              (example_world\<lparr>trace := trace example_world @
                 [LogDebug (''Cloning branch '' @ ''library-75'')]\<rparr>)) =
       Inl (GitCommandError (Some offline_stderr))"
    by code_simp
  have ce_off: "clone_error (GitCommandError (Some offline_stderr))"
    by code_simp
  have nr_off: "\<not> reports_branch_not_found ''library-75'' (GitCommandError (Some offline_stderr))"
    by code_simp
  have a_miss: "fst (clone_from example_env (LIBBUILD_REPO_URI example_env) (Abs [''tmp'', ''co'']) ''library-76'' True 1
              (example_world\<lparr>trace := trace example_world @
                 [LogDebug (''Cloning branch '' @ ''library-76'')]\<rparr>)) =
       Inl (GitCommandError (Some (branch_not_found_stderr [''tmp'', ''co''] ''library-76'')))"
    by code_simp
  have r_miss: "reports_branch_not_found ''library-76''
       (GitCommandError (Some (branch_not_found_stderr [''tmp'', ''co''] ''library-76'')))"
    by code_simp
  have f_m: "clone_fault example_env ''master'' = None"
    by (simp add: example_env_def)
  have m_m: "map_of (remote example_world) ''master'' = Some [([''README''], Text ''libraries'')]"
    by (simp add: example_world_def)
  have d_m: "''library-76'' \<noteq> ''master''"
    by simp
  note ready = example_world_ready(1) example_world_ready(2) example_world_ready(3)
  note first = resolve_branch_recovers_only_missing_branch
      [where ?w0.0 = example_world and e = example_env and lib_id = 75 and version = version_2
         and platforms = "[''atmelavr'']" and force = False,
       THEN conjunct1, THEN mp, THEN mp, THEN mp, OF ready]
  note ok = resolve_branch_recovers_only_missing_branch
      [where e = example_env and to = "Abs [''tmp'', ''co'']" and branch_name = "''library-75''" and w = example_world
         and ?r1.0 = "fst (clone_from example_env (LIBBUILD_REPO_URI example_env) (Abs [''tmp'', ''co'']) ''library-75'' True 1
              (example_world\<lparr>trace := trace example_world @
                 [LogDebug (''Cloning branch '' @ ''library-75'')]\<rparr>))"
         and ?w1.0 = "snd (clone_from example_env (LIBBUILD_REPO_URI example_env) (Abs [''tmp'', ''co'']) ''library-75'' True 1
              (example_world\<lparr>trace := trace example_world @
                 [LogDebug (''Cloning branch '' @ ''library-75'')]\<rparr>))",
       THEN conjunct2, THEN mp, OF prod.collapse [symmetric]]
  note c_ok = ok [THEN conjunct1, THEN spec, THEN mp, OF a_ok]
  note offline = resolve_branch_recovers_only_missing_branch
      [where e = offline_env and to = "Abs [''tmp'', ''co'']" and branch_name = "''library-75''" and w = example_world
         and ?r1.0 = "fst (clone_from offline_env (LIBBUILD_REPO_URI offline_env) (Abs [''tmp'', ''co'']) ''library-75'' True 1
              (example_world\<lparr>trace := trace example_world @
                 [LogDebug (''Cloning branch '' @ ''library-75'')]\<rparr>))"
         and ?w1.0 = "snd (clone_from offline_env (LIBBUILD_REPO_URI offline_env) (Abs [''tmp'', ''co'']) ''library-75'' True 1
              (example_world\<lparr>trace := trace example_world @
                 [LogDebug (''Cloning branch '' @ ''library-75'')]\<rparr>))",
       THEN conjunct2, THEN mp, OF prod.collapse [symmetric]]
  note c_off = offline [THEN conjunct2, THEN conjunct1, THEN spec, THEN mp, THEN mp, THEN mp,
      OF a_off ce_off nr_off]
  note missing = resolve_branch_recovers_only_missing_branch
      [where e = example_env and to = "Abs [''tmp'', ''co'']" and branch_name = "''library-76''" and w = example_world
         and ?r1.0 = "fst (clone_from example_env (LIBBUILD_REPO_URI example_env) (Abs [''tmp'', ''co'']) ''library-76'' True 1
              (example_world\<lparr>trace := trace example_world @
                 [LogDebug (''Cloning branch '' @ ''library-76'')]\<rparr>))"
         and ?w1.0 = "snd (clone_from example_env (LIBBUILD_REPO_URI example_env) (Abs [''tmp'', ''co'']) ''library-76'' True 1
              (example_world\<lparr>trace := trace example_world @
                 [LogDebug (''Cloning branch '' @ ''library-76'')]\<rparr>))",
       THEN conjunct2, THEN mp, OF prod.collapse [symmetric]]
  note c_miss = missing [THEN conjunct2, THEN conjunct2, THEN spec, THEN mp, THEN mp,
      OF a_miss r_miss, THEN conjunct2, THEN mp, THEN mp, THEN mp, OF f_m m_m d_m]
  show ?thesis
    by (intro conjI ready first a_ok c_ok a_off ce_off nr_off c_off a_miss r_miss f_m m_m d_m
          c_miss)
qed

end
